theory Spec2Isabelle
  imports Main "HOL-Library.AList"
begin

section \<open>Python values, exceptions and the world the handlers run in\<close>

text \<open>
  The module \<^verbatim>\<open>engine/file_handler.py\<close> moves plain data between objects, files and
  three serialisation libraries. The values it handles are modelled as trees: a dict is
  an association list in insertion order, as Python dicts are.
\<close>

datatype pyval =
    PyNone
  | PyBool bool
  | PyInt int
  | PyStr string
  | PyBytes string
  | PyList "pyval list"
  | PyDict "(pyval \<times> pyval) list"

text \<open>Python's truth value of an object, as \<^verbatim>\<open>if Result:\<close> tests it.\<close>

fun truthy :: "pyval \<Rightarrow> bool" where
  "truthy PyNone = False"
| "truthy (PyBool b) = b"
| "truthy (PyInt i) = (i \<noteq> 0)"
| "truthy (PyStr s) = (s \<noteq> [])"
| "truthy (PyBytes s) = (s \<noteq> [])"
| "truthy (PyList xs) = (xs \<noteq> [])"
| "truthy (PyDict kvs) = (kvs \<noteq> [])"

text \<open>The name of the type of a value, as error messages print it.\<close>

fun type_name :: "pyval \<Rightarrow> string" where
  "type_name PyNone = ''NoneType''"
| "type_name (PyBool b) = ''bool''"
| "type_name (PyInt i) = ''int''"
| "type_name (PyStr s) = ''str''"
| "type_name (PyBytes s) = ''bytes''"
| "type_name (PyList xs) = ''list''"
| "type_name (PyDict kvs) = ''dict''"

text \<open>
  The type of a wrong argument as the messages of the built-in methods print it: they
  print \<^verbatim>\<open>None\<close> for None.
\<close>

fun argument_type_name :: "pyval \<Rightarrow> string" where
  "argument_type_name PyNone = ''None''"
| "argument_type_name v = type_name v"

fun isinstance_bytes :: "pyval \<Rightarrow> bool" where
  "isinstance_bytes (PyBytes s) = True"
| "isinstance_bytes v = False"

text \<open>
  The exception classes that the module names in an \<^verbatim>\<open>except\<close> clause or that its
  calls raise. All of them derive from \<^verbatim>\<open>Exception\<close>; \<^verbatim>\<open>IOError\<close> is Python 3's alias
  of \<^verbatim>\<open>OSError\<close>. The classes outside \<^verbatim>\<open>Exception\<close> (\<^verbatim>\<open>KeyboardInterrupt\<close>,
  \<^verbatim>\<open>SystemExit\<close>) are raised by signals and by explicit exits, not by any call of the
  module, and are not modelled.
\<close>

datatype exc_class =
    Exception
  | OSError
  | FileNotFoundError
  | PermissionError
  | IsADirectoryError
  | NotADirectoryError
  | FileExistsError
  | TypeError
  | ValueError
  | OverflowError
  | AttributeError
  | UnboundLocalError
  | NotImplementedError
  | UnicodeDecodeError
  | YAMLError

abbreviation IOError :: exc_class where
  "IOError \<equiv> OSError"

datatype pyexn = PyExn exc_class string

fun exn_class :: "pyexn \<Rightarrow> exc_class" where
  "exn_class (PyExn c msg) = c"

fun exn_str :: "pyexn \<Rightarrow> string" where
  "exn_str (PyExn c msg) = msg"

definition issubclass :: "exc_class \<Rightarrow> exc_class \<Rightarrow> bool" where
  "issubclass c d =
     (d = Exception \<or> c = d \<or>
      (d = OSError \<and>
       c \<in> set [FileNotFoundError, PermissionError, IsADirectoryError,
                 NotADirectoryError, FileExistsError]) \<or>
      (d = ValueError \<and> c = UnicodeDecodeError))"

definition isinstance_exn :: "pyexn \<Rightarrow> exc_class \<Rightarrow> bool" where
  "isinstance_exn e c = issubclass (exn_class e) c"

text \<open>
  A path is the list of its components (\<^verbatim>\<open>a/b/c.yml\<close> is \<open>[''a'', ''b'', ''c.yml'']\<close>);
  the empty list is the current directory. \<^verbatim>\<open>os.path.dirname\<close> drops the last component.
\<close>

type_synonym path = "string list"

fun path_str :: "path \<Rightarrow> string" where
  "path_str [] = ''.''"
| "path_str [c] = c"
| "path_str (c # cs) = c @ ''/'' @ path_str cs"

definition dirname :: "path \<Rightarrow> path" where
  "dirname p = butlast p"

text \<open>
  The file system: the directories that exist, the regular files with their contents,
  and the entries the process has no permission to write to or read from.
\<close>

record filesys =
  dirs :: "path set"
  files :: "path \<rightharpoonup> string"
  locked :: "path set"

definition is_dir :: "filesys \<Rightarrow> path \<Rightarrow> bool" where
  "is_dir fs p = (p = [] \<or> p \<in> dirs fs)"

definition is_file :: "filesys \<Rightarrow> path \<Rightarrow> bool" where
  "is_file fs p = (files fs p \<noteq> None)"

definition path_exists :: "filesys \<Rightarrow> path \<Rightarrow> bool" where
  "path_exists fs p = (is_dir fs p \<or> is_file fs p)"

text \<open>
  An object is its attribute dictionary \<^verbatim>\<open>__dict__\<close>, and, for an instance of a
  dataclass, the names of the declared fields.
\<close>

type_synonym addr = nat

record pyobj =
  dataclass_fields :: "string list option"
  attrs :: "(string \<times> pyval) list"

text \<open>
  The world: the heap of objects, the module-level name \<^verbatim>\<open>configData\<close> (bound by the
  import to one object, never rebound), the file system, the decoder of the encoding that
  text files are read with (the locale's, since the module passes none; it gives None
  for bytes that are not valid in that encoding), the lines printed so far, and the hook
  methods entered so far (kept only to observe which hooks ran).
\<close>

record world =
  heap :: "addr \<Rightarrow> pyobj"
  configData :: addr
  fsys :: filesys
  text_decode :: "string \<Rightarrow> string option"
  stdout :: "string list"
  calls :: "string list"

section \<open>Computations that may raise\<close>

type_synonym ('s, 'a) prog = "'s \<Rightarrow> (pyexn + 'a) \<times> 's"

definition returnE :: "'a \<Rightarrow> ('s, 'a) prog" where
  "returnE x = (\<lambda>s. (Inr x, s))"

definition raiseE :: "pyexn \<Rightarrow> ('s, 'a) prog" where
  "raiseE e = (\<lambda>s. (Inl e, s))"

definition bindE :: "('s, 'a) prog \<Rightarrow> ('a \<Rightarrow> ('s, 'b) prog) \<Rightarrow> ('s, 'b) prog" where
  "bindE m f = (\<lambda>s. case m s of (Inl e, s1) \<Rightarrow> (Inl e, s1) | (Inr x, s1) \<Rightarrow> f x s1)"

text \<open>
  The \<^verbatim>\<open>except\<close> clauses of a \<^verbatim>\<open>try\<close> are tried in order; an exception that no clause
  matches goes on to the caller.
\<close>

fun handle :: "(exc_class \<times> (pyexn \<Rightarrow> ('s, 'a) prog)) list \<Rightarrow> pyexn \<Rightarrow> ('s, 'a) prog" where
  "handle [] e = raiseE e"
| "handle ((c, h) # hs) e = (if isinstance_exn e c then h e else handle hs e)"

definition try_except ::
  "('s, 'a) prog \<Rightarrow> (exc_class \<times> (pyexn \<Rightarrow> ('s, 'a) prog)) list \<Rightarrow> ('s, 'a) prog" where
  "try_except body clauses =
     (\<lambda>s. case body s of (Inl e, s1) \<Rightarrow> handle clauses e s1 | (Inr x, s1) \<Rightarrow> (Inr x, s1))"

definition py_print :: "string \<Rightarrow> (world, unit) prog" where
  "py_print line = (\<lambda>w. (Inr (), w\<lparr>stdout := stdout w @ [line]\<rparr>))"

text \<open>A handler branch that prints and falls off the end of the function returns None.\<close>

definition print_return_None :: "string \<Rightarrow> (world, pyval) prog" where
  "print_return_None line = bindE (py_print line) (\<lambda>u. returnE PyNone)"

section \<open>Files\<close>

definition os_error :: "exc_class \<Rightarrow> string \<Rightarrow> path \<Rightarrow> pyexn" where
  "os_error c what p = PyExn c (what @ '': '' @ path_str p)"

datatype pyfile = PyFile path string

text \<open>
  \<^verbatim>\<open>open(path, mode)\<close>. The write modes create the file or truncate it, and need the
  parent directory; the read modes need the file.
\<close>

definition py_open :: "path \<Rightarrow> string \<Rightarrow> (world, pyfile) prog" where
  "py_open p mode = (\<lambda>w.
     let fs = fsys w in
     if mode = ''w'' \<or> mode = ''wb'' then
       (if is_dir fs p then (Inl (os_error IsADirectoryError ''Is a directory'' p), w)
        else if \<not> is_dir fs (dirname p) then
          (if is_file fs (dirname p)
           then (Inl (os_error NotADirectoryError ''Not a directory'' p), w)
           else (Inl (os_error FileNotFoundError ''No such file or directory'' p), w))
        else if p \<in> locked fs \<or> (\<not> is_file fs p \<and> dirname p \<in> locked fs)
          then (Inl (os_error PermissionError ''Permission denied'' p), w)
        else (Inr (PyFile p mode), w\<lparr>fsys := fs\<lparr>files := (files fs)(p \<mapsto> [])\<rparr>\<rparr>))
     else
       (if is_dir fs p then (Inl (os_error IsADirectoryError ''Is a directory'' p), w)
        else if \<not> is_file fs p then
          (if \<not> is_dir fs (dirname p) \<and> is_file fs (dirname p)
           then (Inl (os_error NotADirectoryError ''Not a directory'' p), w)
           else (Inl (os_error FileNotFoundError ''No such file or directory'' p), w))
        else if p \<in> locked fs
          then (Inl (os_error PermissionError ''Permission denied'' p), w)
        else (Inr (PyFile p mode), w)))"

definition append_file :: "path \<Rightarrow> string \<Rightarrow> (world, unit) prog" where
  "append_file p s = (\<lambda>w.
     let fs = fsys w;
         old = (case files fs p of None \<Rightarrow> [] | Some c \<Rightarrow> c)
     in (Inr (), w\<lparr>fsys := fs\<lparr>files := (files fs)(p \<mapsto> old @ s)\<rparr>\<rparr>))"

text \<open>\<^verbatim>\<open>f.write(data)\<close>: a text file takes a str, a binary file takes bytes.\<close>

fun py_fwrite :: "pyfile \<Rightarrow> pyval \<Rightarrow> (world, unit) prog" where
  "py_fwrite (PyFile p mode) data =
     (if mode = ''wb'' then
        (case data of
           PyBytes b \<Rightarrow> append_file p b
         | _ \<Rightarrow> raiseE (PyExn TypeError
             (''a bytes-like object is required, not '' @ argument_type_name data)))
      else if mode = ''w'' then
        (case data of
           PyStr s \<Rightarrow> append_file p s
         | _ \<Rightarrow> raiseE (PyExn TypeError
             (''write() argument must be str, not '' @ argument_type_name data)))
      else raiseE (PyExn OSError ''not writable''))"

text \<open>
  Reading in text mode translates the line ends: \<^verbatim>\<open>\r\n\<close> and a lone \<^verbatim>\<open>\r\<close> both
  become \<^verbatim>\<open>\n\<close>.
\<close>

fun universal_newlines :: "string \<Rightarrow> string" where
  "universal_newlines [] = []"
| "universal_newlines [c] = (if c = CHR 0x0D then [CHR 0x0A] else [c])"
| "universal_newlines (c # d # s) =
     (if c = CHR 0x0D then
        (if d = CHR 0x0A then CHR 0x0A # universal_newlines s
         else CHR 0x0A # universal_newlines (d # s))
      else c # universal_newlines (d # s))"

text \<open>
  \<^verbatim>\<open>f.read()\<close>: the whole contents. A binary file gives the bytes; a text file decodes
  them, which raises UnicodeDecodeError when they are not valid in the encoding, and
  translates the line ends.
\<close>

fun py_fread :: "pyfile \<Rightarrow> (world, pyval) prog" where
  "py_fread (PyFile p mode) = (\<lambda>w.
     let c = (case files (fsys w) p of None \<Rightarrow> [] | Some c \<Rightarrow> c)
     in if mode = ''rb'' then (Inr (PyBytes c), w)
        else if mode = ''r'' then
          (case text_decode w c of
             None \<Rightarrow> (Inl (PyExn UnicodeDecodeError ''codec can't decode bytes''), w)
           | Some s \<Rightarrow> (Inr (PyStr (universal_newlines s)), w))
        else (Inl (PyExn OSError ''not readable''), w))"

subsection \<open>DataHandler.write\_file and DataHandler.read\_file\<close>

definition write_file :: "path \<Rightarrow> pyval \<Rightarrow> (world, pyval) prog" where
  "write_file file_path data =
     try_except
       (let is_bytes = isinstance_bytes data;
            mode = (if is_bytes then ''wb'' else ''w'')
        in bindE (py_open file_path mode) (\<lambda>f.
           bindE (py_fwrite f data) (\<lambda>u.
           returnE (PyBool True))))
       [(IOError, \<lambda>e. print_return_None
           (''Failed to write file '' @ path_str file_path @
            '', Check that the file is writable.'')),
        (Exception, \<lambda>e. print_return_None
           (''An unexpected error ocurred while writing to file. Error: '' @ exn_str e))]"

definition read_file :: "path \<Rightarrow> bool \<Rightarrow> (world, pyval) prog" where
  "read_file file_path is_bytes =
     try_except
       (let mode = (if is_bytes then ''rb'' else ''r'')
        in bindE (py_open file_path mode) (\<lambda>f. py_fread f))
       [(FileNotFoundError, \<lambda>e. print_return_None
           (''Failed to read file '' @ path_str file_path @
            '', Check that the file exists.'')),
        (PermissionError, \<lambda>e. print_return_None
           (''Failed to read file '' @ path_str file_path @ '', Check permissions.'')),
        (IOError, \<lambda>e. print_return_None
           (''Failed to read file '' @ path_str file_path @
            '', Check that the file is readable.'')),
        (Exception, \<lambda>e. print_return_None
           (''An unexpected error ocurred while reading file. Error: '' @ exn_str e))]"

section \<open>The serialisation libraries\<close>

text \<open>
  \<^verbatim>\<open>ujson\<close>, \<^verbatim>\<open>yaml\<close> and \<^verbatim>\<open>tomllib\<close> are libraries outside the repository: the calls
  the module makes are parameters of the model. Each either returns or raises.
  \<^verbatim>\<open>ujson_dumps\<close> is \<^verbatim>\<open>ujson.dumps(data, indent=4)\<close> and \<^verbatim>\<open>yaml_dump\<close> is
  \<^verbatim>\<open>yaml.dump(data, indent=4)\<close>, which return a str.
\<close>

record codecs =
  ujson_dumps :: "pyval \<Rightarrow> pyexn + string"
  ujson_loads :: "pyval \<Rightarrow> pyexn + pyval"
  yaml_dump :: "pyval \<Rightarrow> pyexn + string"
  yaml_safe_load :: "pyval \<Rightarrow> pyexn + pyval"
  tomllib_loads :: "pyval \<Rightarrow> pyexn + pyval"

definition lib_call :: "('a \<Rightarrow> pyexn + 'b) \<Rightarrow> 'a \<Rightarrow> ('s, 'b) prog" where
  "lib_call f x = (\<lambda>s. (f x, s))"

definition DataHandler_serialize_json :: "codecs \<Rightarrow> pyval \<Rightarrow> (world, pyval) prog" where
  "DataHandler_serialize_json L data =
     try_except
       (bindE (lib_call (ujson_dumps L) data) (\<lambda>s. returnE (PyStr s)))
       [(TypeError, \<lambda>e. print_return_None
           (''Failed to serialize data to JSON. Ensure that all data types are serializable. Error: ''
            @ exn_str e)),
        (OverflowError, \<lambda>e. print_return_None
           (''Failed to serialize data to JSON. Data is too large to be serialized. Error: ''
            @ exn_str e)),
        (Exception, \<lambda>e. print_return_None
           (''An unexpected error occurred while serializing data to JSON. Error: ''
            @ exn_str e))]"

definition DataHandler_deserialize_json :: "codecs \<Rightarrow> pyval \<Rightarrow> (world, pyval) prog" where
  "DataHandler_deserialize_json L data =
     try_except
       (lib_call (ujson_loads L) data)
       [(ValueError, \<lambda>e. print_return_None
           (''Failed to deserialize data from JSON. Ensure that the data is a valid JSON string. Error: ''
            @ exn_str e)),
        (Exception, \<lambda>e. print_return_None
           (''An unexpected error occurred while deserializing data from JSON. Error: ''
            @ exn_str e))]"

definition DataHandler_serialize_yaml :: "codecs \<Rightarrow> pyval \<Rightarrow> (world, pyval) prog" where
  "DataHandler_serialize_yaml L data =
     try_except
       (bindE (lib_call (yaml_dump L) data) (\<lambda>s. returnE (PyStr s)))
       [(TypeError, \<lambda>e. print_return_None
           (''Failed to serialize data to YAML. Ensure that all data types are serializable. Error: ''
            @ exn_str e)),
        (OverflowError, \<lambda>e. print_return_None
           (''Failed to serialize data to YAML. Data is too large to be serialized. Error: ''
            @ exn_str e)),
        (Exception, \<lambda>e. print_return_None
           (''An unexpected error occurred while serializing data to YAML. Error: ''
            @ exn_str e))]"

definition DataHandler_deserialize_yaml :: "codecs \<Rightarrow> pyval \<Rightarrow> (world, pyval) prog" where
  "DataHandler_deserialize_yaml L data =
     try_except
       (lib_call (yaml_safe_load L) data)
       [(ValueError, \<lambda>e. print_return_None
           (''Failed to deserialize data from YAML. Ensure that the data is a valid YAML. Error: ''
            @ exn_str e)),
        (Exception, \<lambda>e. print_return_None
           (''An unexpected error occurred while deserializing data from YAML. Error: ''
            @ exn_str e))]"

definition DataHandler_deserialize_toml :: "codecs \<Rightarrow> pyval \<Rightarrow> (world, pyval) prog" where
  "DataHandler_deserialize_toml L data =
     try_except
       (lib_call (tomllib_loads L) data)
       [(ValueError, \<lambda>e. print_return_None
           (''Failed to deserialize data from TOML. Ensure that the data is a valid TOML. Error: ''
            @ exn_str e)),
        (Exception, \<lambda>e. print_return_None
           (''An unexpected error occurred while deserializing data from TOML. Error: ''
            @ exn_str e))]"

section \<open>BaseHandler and ConfigHandler\<close>

datatype handler_class = BaseHandler | ConfigHandler

text \<open>
  \<^verbatim>\<open>self.class_data\<close> is bound either to the attribute dictionary of an object (the
  same dict, not a copy) or to a value of its own.
\<close>

datatype data_ref = AttrDict addr | Snapshot pyval

record handler =
  cls :: handler_class
  class_obj :: addr
  serialize_json :: bool
  serialize_yaml :: bool
  serialize_toml :: bool
  class_data :: data_ref
  file_path :: path

definition attr_dict :: "pyobj \<Rightarrow> pyval" where
  "attr_dict obj = PyDict (map (\<lambda>(k, v). (PyStr k, v)) (attrs obj))"

fun deref :: "world \<Rightarrow> data_ref \<Rightarrow> pyval" where
  "deref w (AttrDict a) = attr_dict (heap w a)"
| "deref w (Snapshot v) = v"

text \<open>\<^verbatim>\<open>dataclasses.asdict\<close>: the declared fields, each read from the instance.\<close>

fun asdict_fields :: "(string \<times> pyval) list \<Rightarrow> string list \<Rightarrow> pyexn + (pyval \<times> pyval) list" where
  "asdict_fields at [] = Inr []"
| "asdict_fields at (f # fs) =
     (case map_of at f of
        None \<Rightarrow> Inl (PyExn AttributeError (''object has no attribute '' @ f))
      | Some v \<Rightarrow>
          (case asdict_fields at fs of
             Inl e \<Rightarrow> Inl e
           | Inr kvs \<Rightarrow> Inr ((PyStr f, v) # kvs)))"

text \<open>\<^verbatim>\<open>os.mkdir\<close> and \<^verbatim>\<open>os.makedirs\<close>.\<close>

definition os_mkdir :: "path \<Rightarrow> (world, unit) prog" where
  "os_mkdir p = (\<lambda>w.
     let fs = fsys w in
     if path_exists fs p then (Inl (os_error FileExistsError ''File exists'' p), w)
     else if \<not> is_dir fs (dirname p) then
       (if is_file fs (dirname p)
        then (Inl (os_error NotADirectoryError ''Not a directory'' p), w)
        else (Inl (os_error FileNotFoundError ''No such file or directory'' p), w))
     else if dirname p \<in> locked fs
       then (Inl (os_error PermissionError ''Permission denied'' p), w)
     else (Inr (), w\<lparr>fsys := fs\<lparr>dirs := insert p (dirs fs)\<rparr>\<rparr>))"

function makedirs :: "path \<Rightarrow> bool \<Rightarrow> (world, unit) prog" where
  "makedirs name exist_ok w =
     (let head = dirname name in
      case (if head \<noteq> [] \<and> name \<noteq> [] \<and> \<not> path_exists (fsys w) head
            then (case makedirs head exist_ok w of
                    (Inl e, w1) \<Rightarrow>
                      if isinstance_exn e FileExistsError then (Inr (), w1) else (Inl e, w1)
                  | (Inr u, w1) \<Rightarrow> (Inr u, w1))
            else (Inr (), w)) of
        (Inl e, w1) \<Rightarrow> (Inl e, w1)
      | (Inr u, w1) \<Rightarrow>
          try_except (os_mkdir name)
            [(OSError, \<lambda>e w2.
                if \<not> exist_ok \<or> \<not> is_dir (fsys w2) name then (Inl e, w2) else (Inr (), w2))]
            w1)"
  by pat_completeness auto
termination
  by (relation "measure (\<lambda>(name, exist_ok, w). length name)") (auto simp: dirname_def)

declare makedirs.simps [simp del]

text \<open>
  \<^verbatim>\<open>BaseHandler.__init__\<close>. The flags default to False in the source; here the caller
  passes all three.
\<close>

definition BaseHandler_init ::
  "handler_class \<Rightarrow> addr \<Rightarrow> path \<Rightarrow> bool \<Rightarrow> bool \<Rightarrow> bool \<Rightarrow> (world, handler) prog" where
  "BaseHandler_init c class_obj' file_path' json yaml toml =
     bindE (\<lambda>w.
        let obj = heap w class_obj' in
        case dataclass_fields obj of
          Some fs \<Rightarrow>
            (case asdict_fields (attrs obj) fs of
               Inl e \<Rightarrow> (Inl e, w)
             | Inr kvs \<Rightarrow> (Inr (Snapshot (PyDict kvs)), w))
        | None \<Rightarrow> (Inr (AttrDict class_obj'), w)) (\<lambda>cd.
     bindE (let file_dir = dirname file_path'
            in if file_dir \<noteq> [] then makedirs file_dir True else returnE ()) (\<lambda>u.
     returnE \<lparr>cls = c, class_obj = class_obj', serialize_json = json,
              serialize_yaml = yaml, serialize_toml = toml, class_data = cd,
              file_path = file_path'\<rparr>))"

text \<open>
  \<^verbatim>\<open>ConfigHandler.__init__(file_path, config_obj=configData, **kwargs)\<close> calls
  \<^verbatim>\<open>super().__init__(config_obj, file_path, **kwargs, serialize_yaml=True)\<close>. A keyword
  given twice, or one that the base constructor does not have, is a TypeError of the
  call. \<open>config_obj = None\<close> stands for the default argument.
\<close>

definition ConfigHandler_init ::
  "path \<Rightarrow> addr option \<Rightarrow> (string \<times> bool) list \<Rightarrow> (world, handler) prog" where
  "ConfigHandler_init file_path' config_obj kwargs = (\<lambda>w.
     let obj = (case config_obj of None \<Rightarrow> configData w | Some a \<Rightarrow> a);
         keys = map fst kwargs
     in if ''serialize_yaml'' \<in> set keys
        then (Inl (PyExn TypeError
                ''got multiple values for keyword argument 'serialize_yaml' ''), w)
        else if ''class_obj'' \<in> set keys
        then (Inl (PyExn TypeError ''got multiple values for argument 'class_obj' ''), w)
        else (case filter (\<lambda>k. k \<notin> set [''serialize_json'', ''serialize_toml'']) keys of
                k # ks \<Rightarrow> (Inl (PyExn TypeError (''got an unexpected keyword argument '' @ k)), w)
              | [] \<Rightarrow>
                  BaseHandler_init ConfigHandler obj file_path'
                    (case map_of kwargs ''serialize_json'' of None \<Rightarrow> False | Some b \<Rightarrow> b)
                    True
                    (case map_of kwargs ''serialize_toml'' of None \<Rightarrow> False | Some b \<Rightarrow> b)
                    w))"

subsection \<open>Methods: the state is the handler and the world\<close>

type_synonym 'a meth = "(handler \<times> world, 'a) prog"

definition get_self :: "handler meth" where
  "get_self = (\<lambda>(self, w). (Inr self, (self, w)))"

definition on_world :: "(world, 'a) prog \<Rightarrow> 'a meth" where
  "on_world m = (\<lambda>(self, w). case m w of (r, w1) \<Rightarrow> (r, (self, w1)))"

definition read_class_data :: "pyval meth" where
  "read_class_data = (\<lambda>(self, w). (Inr (deref w (class_data self)), (self, w)))"

definition set_class_data :: "pyval \<Rightarrow> unit meth" where
  "set_class_data data = (\<lambda>(self, w). (Inr (), (self\<lparr>class_data := Snapshot data\<rparr>, w)))"

definition note_call :: "string \<Rightarrow> unit meth" where
  "note_call name = (\<lambda>(self, w). (Inr (), (self, w\<lparr>calls := calls w @ [name]\<rparr>)))"

text \<open>
  \<^verbatim>\<open>d.update(**data)\<close>: the argument of \<^verbatim>\<open>**\<close> must be a mapping whose keys are
  strings; each key is then stored, in place when it is there already and at the end
  when it is new.
\<close>

fun str_keys :: "(pyval \<times> pyval) list \<Rightarrow> pyexn + (string \<times> pyval) list" where
  "str_keys [] = Inr []"
| "str_keys ((PyStr k, v) # rest) =
     (case str_keys rest of Inl e \<Rightarrow> Inl e | Inr kvs \<Rightarrow> Inr ((k, v) # kvs))"
| "str_keys ((other, v) # rest) = Inl (PyExn TypeError ''keywords must be strings'')"

fun keyword_args :: "pyval \<Rightarrow> pyexn + (string \<times> pyval) list" where
  "keyword_args (PyDict kvs) = str_keys kvs"
| "keyword_args v =
     Inl (PyExn TypeError
       (''dict.update() argument after ** must be a mapping, not '' @ type_name v))"

definition dict_update :: "(string \<times> pyval) list \<Rightarrow> (string \<times> pyval) list \<Rightarrow> (string \<times> pyval) list" where
  "dict_update d kvs = fold (\<lambda>(k, v). AList.update k v) kvs d"

definition BaseHandler_on_saved_file :: "pyval meth" where
  "BaseHandler_on_saved_file =
     bindE (note_call ''on_saved_file'') (\<lambda>u.
     raiseE (PyExn NotImplementedError ''Subclasses must implement on_saved_file()''))"

definition BaseHandler_on_loaded_file :: "pyval meth" where
  "BaseHandler_on_loaded_file =
     bindE (note_call ''on_loaded_file'') (\<lambda>u.
     raiseE (PyExn NotImplementedError ''Subclasses must implement on_loaded_file()''))"

definition BaseHandler_update_global :: "pyval meth" where
  "BaseHandler_update_global =
     raiseE (PyExn NotImplementedError ''Subclasses must implement update_global()'')"

definition ConfigHandler_update_global :: "pyval meth" where
  "ConfigHandler_update_global =
     bindE read_class_data (\<lambda>data.
     on_world (\<lambda>w.
       case keyword_args data of
         Inl e \<Rightarrow> (Inl e, w)
       | Inr kvs \<Rightarrow>
           (let g = configData w; obj = heap w g
            in (Inr PyNone,
                w\<lparr>heap := (heap w)(g := obj\<lparr>attrs := dict_update (attrs obj) kvs\<rparr>)\<rparr>))))"

definition update_global :: "pyval meth" where
  "update_global =
     bindE get_self (\<lambda>self.
       case cls self of
         BaseHandler \<Rightarrow> BaseHandler_update_global
       | ConfigHandler \<Rightarrow> ConfigHandler_update_global)"

definition ConfigHandler_on_saved_file :: "pyval meth" where
  "ConfigHandler_on_saved_file =
     bindE (note_call ''on_saved_file'') (\<lambda>u. returnE PyNone)"

definition ConfigHandler_on_loaded_file :: "pyval meth" where
  "ConfigHandler_on_loaded_file =
     bindE (note_call ''on_loaded_file'') (\<lambda>u.
     bindE update_global (\<lambda>r. returnE PyNone))"

definition on_saved_file :: "pyval meth" where
  "on_saved_file =
     bindE get_self (\<lambda>self.
       case cls self of
         BaseHandler \<Rightarrow> BaseHandler_on_saved_file
       | ConfigHandler \<Rightarrow> ConfigHandler_on_saved_file)"

definition on_loaded_file :: "pyval meth" where
  "on_loaded_file =
     bindE get_self (\<lambda>self.
       case cls self of
         BaseHandler \<Rightarrow> BaseHandler_on_loaded_file
       | ConfigHandler \<Rightarrow> ConfigHandler_on_loaded_file)"

text \<open>
  The \<^verbatim>\<open>if\<close>/\<^verbatim>\<open>elif\<close> chain of \<^verbatim>\<open>save_file\<close> and \<^verbatim>\<open>load_file\<close> either leaves the
  method (\<^verbatim>\<open>return\<close>) or goes on with what the local variable \<^verbatim>\<open>data\<close> holds; in
  \<^verbatim>\<open>save_file\<close> it may hold nothing, when no branch assigned it.
\<close>

datatype 'a flow = Return pyval | Continue 'a

definition save_file :: "codecs \<Rightarrow> pyval meth" where
  "save_file L =
     try_except
       (bindE get_self (\<lambda>self.
        bindE
          (if serialize_json self then
             bindE read_class_data (\<lambda>cd.
             bindE (on_world (DataHandler_serialize_json L cd)) (\<lambda>data.
             if data = PyNone then returnE (Return PyNone)
             else returnE (Continue (Some data))))
           else if serialize_yaml self then
             bindE read_class_data (\<lambda>cd.
             bindE (on_world (DataHandler_serialize_yaml L cd)) (\<lambda>data.
             if data = PyNone then returnE (Return PyNone)
             else returnE (Continue (Some data))))
           else returnE (Continue None))
          (\<lambda>fl. case fl of
             Return v \<Rightarrow> returnE v
           | Continue local_data \<Rightarrow>
               bindE (case local_data of
                        None \<Rightarrow> raiseE (PyExn UnboundLocalError
                          ''cannot access local variable 'data' where it is not associated with a value'')
                      | Some data \<Rightarrow> returnE data) (\<lambda>data.
               bindE (on_world (write_file (file_path self) data)) (\<lambda>Result.
               if truthy Result
               then bindE on_saved_file (\<lambda>r. returnE PyNone)
               else returnE PyNone)))))
       [(Exception, \<lambda>e. on_world (print_return_None
           (''Unexpected error saving data: '' @ exn_str e)))]"

definition load_file :: "codecs \<Rightarrow> pyval meth" where
  "load_file L =
     try_except
       (bindE get_self (\<lambda>self.
        bindE (on_world (read_file (file_path self) False)) (\<lambda>data.
        if data = PyNone then returnE PyNone
        else
          bindE
            (if serialize_json self then
               bindE (on_world (DataHandler_deserialize_json L data)) (\<lambda>data.
               if data = PyNone then returnE (Return PyNone) else returnE (Continue data))
             else if serialize_yaml self then
               bindE (on_world (DataHandler_deserialize_yaml L data)) (\<lambda>data.
               if data = PyNone then returnE (Return PyNone) else returnE (Continue data))
             else if serialize_toml self then
               bindE (on_world (DataHandler_deserialize_toml L data)) (\<lambda>data.
               if data = PyNone then returnE (Return PyNone) else returnE (Continue data))
             else returnE (Continue data))
            (\<lambda>fl. case fl of
               Return v \<Rightarrow> returnE v
             | Continue data \<Rightarrow>
                 bindE (set_class_data data) (\<lambda>u.
                 bindE on_loaded_file (\<lambda>r. returnE PyNone))))))
       [(Exception, \<lambda>e. on_world (print_return_None
           (''Unexpected error loading data: '' @ exn_str e)))]"

section \<open>Concrete states for the examples\<close>

text \<open>
  An empty world: no directory but the current one, no file, nothing printed, every
  object without attributes, and text files read as ASCII (every byte with the top bit
  set is invalid). \<open>stub_codecs\<close> stands in for the libraries with encoders
  that return a fixed text naming the format and decoders that return a fixed record.
\<close>

definition ascii_decode :: "string \<Rightarrow> string option" where
  "ascii_decode b = (if list_all (\<lambda>c. \<not> digit7 c) b then Some b else None)"

definition world0 :: world where
  "world0 =
     \<lparr>heap = (\<lambda>a. \<lparr>dataclass_fields = None, attrs = []\<rparr>), configData = 0,
      fsys = \<lparr>dirs = {}, files = Map.empty, locked = {}\<rparr>,
      text_decode = ascii_decode, stdout = [], calls = []\<rparr>"

text \<open>The empty world with one file, \<^verbatim>\<open>cfg.yml\<close>, holding \<^verbatim>\<open>a: 1\<close>.\<close>

definition world_cfg :: world where
  "world_cfg =
     \<lparr>heap = (\<lambda>a. \<lparr>dataclass_fields = None, attrs = []\<rparr>), configData = 0,
      fsys = \<lparr>dirs = {}, files = [[''cfg.yml''] \<mapsto> ''a: 1''], locked = {}\<rparr>,
      text_decode = ascii_decode, stdout = [], calls = []\<rparr>"

text \<open>
  A world with two objects: object 0, to which \<^verbatim>\<open>configData\<close> is bound, has the
  attributes a = 1 and b = 2; every other object has b = 3 and c = 4.
\<close>

definition world_two :: world where
  "world_two =
     \<lparr>heap = (\<lambda>a. if a = 0
                 then \<lparr>dataclass_fields = None,
                        attrs = [(''a'', PyInt 1), (''b'', PyInt 2)]\<rparr>
                 else \<lparr>dataclass_fields = None,
                        attrs = [(''b'', PyInt 3), (''c'', PyInt 4)]\<rparr>),
      configData = 0,
      fsys = \<lparr>dirs = {}, files = Map.empty, locked = {}\<rparr>,
      text_decode = ascii_decode, stdout = [], calls = []\<rparr>"

definition stub_codecs :: codecs where
  "stub_codecs =
     \<lparr>ujson_dumps = (\<lambda>v. Inr ''JSON''),
      ujson_loads = (\<lambda>v. Inr (PyDict [(PyStr ''fmt'', PyStr ''json'')])),
      yaml_dump = (\<lambda>v. Inr ''YAML''),
      yaml_safe_load = (\<lambda>v. Inr (PyDict [(PyStr ''fmt'', PyStr ''yaml'')])),
      tomllib_loads = (\<lambda>v. Inr (PyDict [(PyStr ''fmt'', PyStr ''toml'')]))\<rparr>"

text \<open>
  \<open>sample_codecs\<close> gives what the libraries give on the documents of the examples:
  the empty dict is \<^verbatim>\<open>{}\<close> in JSON and \<^verbatim>\<open>{}\<close> with a line end in YAML; the text
  \<^verbatim>\<open>a: 1\<close> is a YAML mapping and neither JSON nor TOML. It raises on every other
  argument; the examples pass none.
\<close>

definition sample_codecs :: codecs where
  "sample_codecs =
     \<lparr>ujson_dumps = (\<lambda>v. if v = PyDict [] then Inr ''{}''
                          else Inl (PyExn TypeError ''not a sample document'')),
      ujson_loads = (\<lambda>v. if v = PyStr ''{}'' then Inr (PyDict [])
                          else Inl (PyExn ValueError ''Expected object or value'')),
      yaml_dump = (\<lambda>v. if v = PyDict [] then Inr (''{}'' @ [CHR 0x0A])
                        else Inl (PyExn TypeError ''not a sample document'')),
      yaml_safe_load = (\<lambda>v. if v = PyStr ''a: 1'' then Inr (PyDict [(PyStr ''a'', PyInt 1)])
                             else if v = PyStr ''{}'' then Inr (PyDict [])
                             else Inl (PyExn YAMLError ''not a sample document'')),
      tomllib_loads = (\<lambda>v. Inl (PyExn ValueError ''Invalid statement''))\<rparr>"

text \<open>
  A handler for object 0, which is not a dataclass instance, so that \<^verbatim>\<open>class_data\<close> is
  the attribute dictionary of the object itself.
\<close>

definition handler_at :: "handler_class \<Rightarrow> bool \<Rightarrow> bool \<Rightarrow> bool \<Rightarrow> path \<Rightarrow> handler" where
  "handler_at c json yaml toml p =
     \<lparr>cls = c, class_obj = 0, serialize_json = json, serialize_yaml = yaml,
      serialize_toml = toml, class_data = AttrDict 0, file_path = p\<rparr>"

section \<open>Exceptions and handlers\<close>

lemma isinstance_Exception [simp]: "isinstance_exn e Exception"
  by (simp add: isinstance_exn_def issubclass_def)

lemma print_return_None_apply:
  "print_return_None line w = (Inr PyNone, w\<lparr>stdout := stdout w @ [line]\<rparr>)"
  by (simp add: print_return_None_def bindE_def py_print_def returnE_def)

lemma returnE_apply: "returnE x s = (Inr x, s)"
  by (simp add: returnE_def)

lemma raiseE_apply: "raiseE e s = (Inl e, s)"
  by (simp add: raiseE_def)

lemma bindE_apply:
  "bindE m f s = (case m s of (Inl e, s1) \<Rightarrow> (Inl e, s1) | (Inr x, s1) \<Rightarrow> f x s1)"
  by (simp add: bindE_def)

lemma try_except_apply:
  "try_except body clauses s =
     (case body s of (Inl e, s1) \<Rightarrow> handle clauses e s1 | (Inr x, s1) \<Rightarrow> (Inr x, s1))"
  by (simp add: try_except_def)

lemma on_world_apply: "on_world m (h, w) = (case m w of (r, w1) \<Rightarrow> (r, (h, w1)))"
  by (simp add: on_world_def)

lemma get_self_apply: "get_self (h, w) = (Inr h, (h, w))"
  by (simp add: get_self_def)

lemma read_class_data_apply: "read_class_data (h, w) = (Inr (deref w (class_data h)), (h, w))"
  by (simp add: read_class_data_def)

lemma set_class_data_apply:
  "set_class_data data (h, w) = (Inr (), (h\<lparr>class_data := Snapshot data\<rparr>, w))"
  by (simp add: set_class_data_def)

lemma note_call_apply: "note_call name (h, w) = (Inr (), (h, w\<lparr>calls := calls w @ [name]\<rparr>))"
  by (simp add: note_call_def)

lemmas prog_simps = returnE_apply raiseE_apply bindE_apply try_except_apply on_world_apply
  get_self_apply read_class_data_apply set_class_data_apply note_call_apply

lemma world0_simps:
  "heap world0 = (\<lambda>a. \<lparr>dataclass_fields = None, attrs = []\<rparr>)"
  "configData world0 = 0"
  "fsys world0 = \<lparr>dirs = {}, files = Map.empty, locked = {}\<rparr>"
  "text_decode world0 = ascii_decode"
  "stdout world0 = []"
  "calls world0 = []"
  by (simp_all add: world0_def)

lemma handler_at_simps:
  "cls (handler_at c j y t p) = c"
  "class_obj (handler_at c j y t p) = 0"
  "serialize_json (handler_at c j y t p) = j"
  "serialize_yaml (handler_at c j y t p) = y"
  "serialize_toml (handler_at c j y t p) = t"
  "class_data (handler_at c j y t p) = AttrDict 0"
  "file_path (handler_at c j y t p) = p"
  by (simp_all add: handler_at_def)

section \<open>DataHandler.write\_file\<close>

lemma py_open_error_is_OSError:
  "py_open p mode w = (Inl e, w1) \<Longrightarrow> isinstance_exn e OSError \<and> w1 = w"
  by (auto simp: py_open_def Let_def os_error_def isinstance_exn_def issubclass_def
      split: if_splits)

lemma py_open_handle:
  "py_open p mode w = (Inr f, w1) \<Longrightarrow> f = PyFile p mode"
  by (auto simp: py_open_def Let_def split: if_splits)

lemma py_open_write_world:
  "mode = ''w'' \<or> mode = ''wb'' \<Longrightarrow> py_open p mode w = (Inr f, w1) \<Longrightarrow>
     w1 = w\<lparr>fsys := (fsys w)\<lparr>files := (files (fsys w))(p \<mapsto> [])\<rparr>\<rparr>"
  by (auto simp: py_open_def Let_def split: if_splits)

text \<open>The \<^verbatim>\<open>try\<close> of \<^verbatim>\<open>write_file\<close> with its two clauses resolved.\<close>

lemma write_file_eq:
  "write_file p data w =
     (case py_open p (if isinstance_bytes data then ''wb'' else ''w'') w of
        (Inl e, w1) \<Rightarrow>
          (Inr PyNone, w1\<lparr>stdout := stdout w1 @
             [''Failed to write file '' @ path_str p @ '', Check that the file is writable.'']\<rparr>)
      | (Inr f, w1) \<Rightarrow>
          (case py_fwrite f data w1 of
             (Inl e, w2) \<Rightarrow>
               (if isinstance_exn e OSError
                then (Inr PyNone, w2\<lparr>stdout := stdout w2 @
                   [''Failed to write file '' @ path_str p @
                    '', Check that the file is writable.'']\<rparr>)
                else (Inr PyNone, w2\<lparr>stdout := stdout w2 @
                   [''An unexpected error ocurred while writing to file. Error: '' @
                    exn_str e]\<rparr>))
           | (Inr u, w2) \<Rightarrow> (Inr (PyBool True), w2)))"
  by (auto simp: write_file_def try_except_def bindE_def returnE_def Let_def
      print_return_None_apply dest: py_open_error_is_OSError split: prod.splits sum.splits)


lemma py_open_missing_parent:
  "py_open [''missing'', ''cfg.yml''] ''w'' world0 =
     (Inl (os_error FileNotFoundError ''No such file or directory'' [''missing'', ''cfg.yml'']),
      world0)"
  by (simp add: py_open_def world0_simps is_dir_def is_file_def dirname_def)

lemma py_open_cfg:
  "py_open [''cfg.yml''] ''w'' world0 =
     (Inr (PyFile [''cfg.yml''] ''w''),
      world0\<lparr>fsys := (fsys world0)\<lparr>files := (files (fsys world0))([''cfg.yml''] \<mapsto> [])\<rparr>\<rparr>)"
  by (simp add: py_open_def world0_simps is_dir_def is_file_def dirname_def)



section \<open>DataHandler.read\_file and loading from a missing path\<close>

lemma read_file_eq:
  "read_file p b w =
     (case py_open p (if b then ''rb'' else ''r'') w of
        (Inl e, w1) \<Rightarrow>
          (Inr PyNone, w\<lparr>stdout := stdout w @
             [''Failed to read file '' @ path_str p @
              (if isinstance_exn e FileNotFoundError then '', Check that the file exists.''
               else if isinstance_exn e PermissionError then '', Check permissions.''
               else '', Check that the file is readable.'')]\<rparr>)
      | (Inr f, w1) \<Rightarrow>
          (case py_fread (PyFile p (if b then ''rb'' else ''r'')) w1 of
             (Inl e, w2) \<Rightarrow>
               (Inr PyNone, w2\<lparr>stdout := stdout w2 @
                  [''An unexpected error ocurred while reading file. Error: '' @ exn_str e]\<rparr>)
           | (Inr v, w2) \<Rightarrow> (Inr v, w2)))"
proof (cases "py_open p (if b then ''rb'' else ''r'') w")
  case (Pair r w1)
  show ?thesis
  proof (cases r)
    case (Inl e)
    with Pair have o: "py_open p (if b then ''rb'' else ''r'') w = (Inl e, w1)" by simp
    from py_open_error_is_OSError [OF o] have e: "isinstance_exn e OSError" and w1: "w1 = w"
      by simp_all
    from o e w1 show ?thesis
      by (simp add: read_file_def prog_simps Let_def print_return_None_apply)
  next
    case (Inr f)
    with Pair have o: "py_open p (if b then ''rb'' else ''r'') w = (Inr f, w1)" by simp
    from py_open_handle [OF o] have f: "f = PyFile p (if b then ''rb'' else ''r'')" .
    from o f show ?thesis
      by (cases b)
        (simp_all add: read_file_def prog_simps Let_def print_return_None_apply
          isinstance_exn_def issubclass_def split: option.splits)
  qed
qed

lemma py_open_read_absent:
  "\<not> path_exists (fsys w) p \<Longrightarrow> mode = ''r'' \<or> mode = ''rb'' \<Longrightarrow>
   py_open p mode w =
     (Inl (if \<not> is_dir (fsys w) (dirname p) \<and> is_file (fsys w) (dirname p)
           then os_error NotADirectoryError ''Not a directory'' p
           else os_error FileNotFoundError ''No such file or directory'' p), w)"
  by (auto simp: py_open_def path_exists_def Let_def)

lemma read_file_absent:
  "\<not> path_exists (fsys w) p \<Longrightarrow>
   read_file p False w =
     (Inr PyNone, w\<lparr>stdout := stdout w @
        [''Failed to read file '' @ path_str p @
         (if \<not> is_dir (fsys w) (dirname p) \<and> is_file (fsys w) (dirname p)
          then '', Check that the file is readable.''
          else '', Check that the file exists.'')]\<rparr>)"
  by (simp add: read_file_eq py_open_read_absent os_error_def isinstance_exn_def issubclass_def)


text \<open>
  C3. When the bound file path does not exist, \<^verbatim>\<open>load_file\<close> returns normally (None,
  no exception), the handler and with it \<^verbatim>\<open>class_data\<close> is as before, and the world
  differs from the one before in a single printed diagnostic: the file system and the heap
  are untouched and \<^verbatim>\<open>on_loaded_file\<close> has not been entered.
\<close>

theorem load_file_missing_path:
  "\<not> path_exists (fsys w) (file_path h) \<Longrightarrow>
   load_file L (h, w) =
     (Inr PyNone,
      (h, w\<lparr>stdout := stdout w @
        [''Failed to read file '' @ path_str (file_path h) @
         (if \<not> is_dir (fsys w) (dirname (file_path h)) \<and> is_file (fsys w) (dirname (file_path h))
          then '', Check that the file is readable.''
          else '', Check that the file exists.'')]\<rparr>))"
  by (simp add: load_file_def prog_simps read_file_absent)

theorem load_file_missing_path_witness:
  "\<not> path_exists (fsys world0) (file_path (handler_at BaseHandler True False False [''cfg.yml'']))
   \<and> load_file stub_codecs (handler_at BaseHandler True False False [''cfg.yml''], world0) =
       (Inr PyNone,
        (handler_at BaseHandler True False False [''cfg.yml''],
         world0\<lparr>stdout := [''Failed to read file cfg.yml, Check that the file exists.'']\<rparr>))"
  using load_file_missing_path
    [of world0 "handler_at BaseHandler True False False [''cfg.yml'']" stub_codecs]
  by (simp add: handler_at_simps world0_simps path_exists_def is_dir_def is_file_def dirname_def)

section \<open>The codec wrappers never raise\<close>

lemma serialize_json_eq:
  "DataHandler_serialize_json L d w =
     (case ujson_dumps L d of
        Inr s \<Rightarrow> (Inr (PyStr s), w)
      | Inl e \<Rightarrow>
          (Inr PyNone, w\<lparr>stdout := stdout w @
             [(if isinstance_exn e TypeError then
                 ''Failed to serialize data to JSON. Ensure that all data types are serializable. Error: ''
               else if isinstance_exn e OverflowError then
                 ''Failed to serialize data to JSON. Data is too large to be serialized. Error: ''
               else ''An unexpected error occurred while serializing data to JSON. Error: '')
              @ exn_str e]\<rparr>))"
  by (simp add: DataHandler_serialize_json_def prog_simps lib_call_def print_return_None_apply
      split: sum.splits)

lemma serialize_yaml_eq:
  "DataHandler_serialize_yaml L d w =
     (case yaml_dump L d of
        Inr s \<Rightarrow> (Inr (PyStr s), w)
      | Inl e \<Rightarrow>
          (Inr PyNone, w\<lparr>stdout := stdout w @
             [(if isinstance_exn e TypeError then
                 ''Failed to serialize data to YAML. Ensure that all data types are serializable. Error: ''
               else if isinstance_exn e OverflowError then
                 ''Failed to serialize data to YAML. Data is too large to be serialized. Error: ''
               else ''An unexpected error occurred while serializing data to YAML. Error: '')
              @ exn_str e]\<rparr>))"
  by (simp add: DataHandler_serialize_yaml_def prog_simps lib_call_def print_return_None_apply
      split: sum.splits)

lemma deserialize_json_eq:
  "DataHandler_deserialize_json L d w =
     (case ujson_loads L d of
        Inr v \<Rightarrow> (Inr v, w)
      | Inl e \<Rightarrow>
          (Inr PyNone, w\<lparr>stdout := stdout w @
             [(if isinstance_exn e ValueError then
                 ''Failed to deserialize data from JSON. Ensure that the data is a valid JSON string. Error: ''
               else ''An unexpected error occurred while deserializing data from JSON. Error: '')
              @ exn_str e]\<rparr>))"
  by (simp add: DataHandler_deserialize_json_def prog_simps lib_call_def print_return_None_apply
      split: sum.splits)

lemma deserialize_yaml_eq:
  "DataHandler_deserialize_yaml L d w =
     (case yaml_safe_load L d of
        Inr v \<Rightarrow> (Inr v, w)
      | Inl e \<Rightarrow>
          (Inr PyNone, w\<lparr>stdout := stdout w @
             [(if isinstance_exn e ValueError then
                 ''Failed to deserialize data from YAML. Ensure that the data is a valid YAML. Error: ''
               else ''An unexpected error occurred while deserializing data from YAML. Error: '')
              @ exn_str e]\<rparr>))"
  by (simp add: DataHandler_deserialize_yaml_def prog_simps lib_call_def print_return_None_apply
      split: sum.splits)

lemma deserialize_toml_eq:
  "DataHandler_deserialize_toml L d w =
     (case tomllib_loads L d of
        Inr v \<Rightarrow> (Inr v, w)
      | Inl e \<Rightarrow>
          (Inr PyNone, w\<lparr>stdout := stdout w @
             [(if isinstance_exn e ValueError then
                 ''Failed to deserialize data from TOML. Ensure that the data is a valid TOML. Error: ''
               else ''An unexpected error occurred while deserializing data from TOML. Error: '')
              @ exn_str e]\<rparr>))"
  by (simp add: DataHandler_deserialize_toml_def prog_simps lib_call_def print_return_None_apply
      split: sum.splits)

section \<open>Hooks and the paths through save\_file\<close>

lemma write_file_str_eq:
  "write_file p (PyStr s) w =
     (case py_open p ''w'' w of
        (Inl e, w1) \<Rightarrow>
          (Inr PyNone, w\<lparr>stdout := stdout w @
             [''Failed to write file '' @ path_str p @ '', Check that the file is writable.'']\<rparr>)
      | (Inr f, w1) \<Rightarrow>
          (Inr (PyBool True), w\<lparr>fsys := (fsys w)\<lparr>files := (files (fsys w))(p \<mapsto> s)\<rparr>\<rparr>))"
proof (cases "py_open p ''w'' w")
  case (Pair r w1)
  show ?thesis
  proof (cases r)
    case (Inl e)
    with Pair have o: "py_open p ''w'' w = (Inl e, w1)" by simp
    from py_open_error_is_OSError [OF o] have "w1 = w" by simp
    with o show ?thesis by (simp add: write_file_eq)
  next
    case (Inr f)
    with Pair have o: "py_open p ''w'' w = (Inr f, w1)" by simp
    from py_open_handle [OF o] py_open_write_world [OF _ o] o show ?thesis
      by (simp add: write_file_eq append_file_def Let_def)
  qed
qed

lemma on_saved_file_apply:
  "on_saved_file (h, w) =
     (case cls h of
        BaseHandler \<Rightarrow>
          (Inl (PyExn NotImplementedError ''Subclasses must implement on_saved_file()''),
           (h, w\<lparr>calls := calls w @ [''on_saved_file'']\<rparr>))
      | ConfigHandler \<Rightarrow> (Inr PyNone, (h, w\<lparr>calls := calls w @ [''on_saved_file'']\<rparr>)))"
  by (simp add: on_saved_file_def BaseHandler_on_saved_file_def ConfigHandler_on_saved_file_def
      prog_simps split: handler_class.splits)

lemma update_global_apply:
  "update_global (h, w) =
     (case cls h of
        BaseHandler \<Rightarrow>
          (Inl (PyExn NotImplementedError ''Subclasses must implement update_global()''), (h, w))
      | ConfigHandler \<Rightarrow>
          (case keyword_args (deref w (class_data h)) of
             Inl e \<Rightarrow> (Inl e, (h, w))
           | Inr kvs \<Rightarrow>
               (Inr PyNone,
                (h, w\<lparr>heap := (heap w)(configData w :=
                   (heap w (configData w))
                     \<lparr>attrs := dict_update (attrs (heap w (configData w))) kvs\<rparr>)\<rparr>))))"
  by (simp add: update_global_def BaseHandler_update_global_def ConfigHandler_update_global_def
      prog_simps Let_def split: handler_class.splits sum.splits)

lemma on_loaded_file_apply:
  "on_loaded_file (h, w) =
     (case cls h of
        BaseHandler \<Rightarrow>
          (Inl (PyExn NotImplementedError ''Subclasses must implement on_loaded_file()''),
           (h, w\<lparr>calls := calls w @ [''on_loaded_file'']\<rparr>))
      | ConfigHandler \<Rightarrow>
          (case update_global (h, w\<lparr>calls := calls w @ [''on_loaded_file'']\<rparr>) of
             (Inl e, s) \<Rightarrow> (Inl e, s)
           | (Inr r, s) \<Rightarrow> (Inr PyNone, s)))"
  by (simp add: on_loaded_file_def BaseHandler_on_loaded_file_def ConfigHandler_on_loaded_file_def
      prog_simps split: handler_class.splits prod.splits sum.splits)


lemma save_file_no_encoder:
  "\<not> serialize_json h \<Longrightarrow> \<not> serialize_yaml h \<Longrightarrow>
   save_file L (h, w) =
     (Inr PyNone,
      (h, w\<lparr>stdout := stdout w @
         [''Unexpected error saving data: cannot access local variable 'data' where it is not associated with a value'']\<rparr>))"
  by (simp add: save_file_def prog_simps print_return_None_apply)

lemma save_file_json_fail:
  "serialize_json h \<Longrightarrow> ujson_dumps L (deref w (class_data h)) = Inl e \<Longrightarrow>
   save_file L (h, w) = (Inr PyNone, (h, snd (DataHandler_serialize_json L (deref w (class_data h)) w)))"
  by (simp add: save_file_def prog_simps serialize_json_eq)

lemma save_file_yaml_fail:
  "\<not> serialize_json h \<Longrightarrow> serialize_yaml h \<Longrightarrow> yaml_dump L (deref w (class_data h)) = Inl e \<Longrightarrow>
   save_file L (h, w) = (Inr PyNone, (h, snd (DataHandler_serialize_yaml L (deref w (class_data h)) w)))"
  by (simp add: save_file_def prog_simps serialize_yaml_eq)

lemma save_file_encoded:
  assumes enc: "(serialize_json h \<and> ujson_dumps L (deref w (class_data h)) = Inr text) \<or>
   (\<not> serialize_json h \<and> serialize_yaml h \<and> yaml_dump L (deref w (class_data h)) = Inr text)"
  shows "save_file L (h, w) =
     (case py_open (file_path h) ''w'' w of
        (Inl e, w1) \<Rightarrow>
          (Inr PyNone, (h, w\<lparr>stdout := stdout w @
             [''Failed to write file '' @ path_str (file_path h) @
              '', Check that the file is writable.'']\<rparr>))
      | (Inr f, w1) \<Rightarrow>
          (Inr PyNone,
           (h, (case cls h of
                  BaseHandler \<Rightarrow>
                    w\<lparr>fsys := (fsys w)\<lparr>files := (files (fsys w))(file_path h \<mapsto> text)\<rparr>,
                      calls := calls w @ [''on_saved_file''],
                      stdout := stdout w @
                        [''Unexpected error saving data: Subclasses must implement on_saved_file()'']\<rparr>
                | ConfigHandler \<Rightarrow>
                    w\<lparr>fsys := (fsys w)\<lparr>files := (files (fsys w))(file_path h \<mapsto> text)\<rparr>,
                      calls := calls w @ [''on_saved_file'']\<rparr>))))"
proof (cases "py_open (file_path h) ''w'' w")
  case (Pair r w1)
  show ?thesis
  proof (cases r)
    case (Inl e)
    with Pair have o: "py_open (file_path h) ''w'' w = (Inl e, w1)" by simp
    from enc show ?thesis
      by (elim disjE conjE)
        (simp_all add: save_file_def prog_simps serialize_json_eq serialize_yaml_eq
          write_file_str_eq o)
  next
    case (Inr f)
    with Pair have o: "py_open (file_path h) ''w'' w = (Inr f, w1)" by simp
    from enc show ?thesis
      by (elim disjE conjE; cases "cls h")
        (simp_all add: save_file_def prog_simps serialize_json_eq serialize_yaml_eq
          write_file_str_eq o on_saved_file_apply print_return_None_apply)
  qed
qed

lemma py_open_write_no_parent:
  "\<not> is_dir (fsys w) (dirname p) \<Longrightarrow> \<exists>e. py_open p ''w'' w = (Inl e, w)"
  by (simp add: py_open_def Let_def)

lemma save_file_cases:
  obtains (diagnostic) line where
      "save_file L (h, w) = (Inr PyNone, (h, w\<lparr>stdout := stdout w @ [line]\<rparr>))"
      "\<And>text. (serialize_json h \<and> ujson_dumps L (deref w (class_data h)) = Inr text) \<or>
         (\<not> serialize_json h \<and> serialize_yaml h \<and> yaml_dump L (deref w (class_data h)) = Inr text)
         \<Longrightarrow> \<exists>e. py_open (file_path h) ''w'' w = (Inl e, w)"
    | (written) payload f w1 where
      "(serialize_json h \<and> ujson_dumps L (deref w (class_data h)) = Inr payload) \<or>
       (\<not> serialize_json h \<and> serialize_yaml h \<and> yaml_dump L (deref w (class_data h)) = Inr payload)"
      "py_open (file_path h) ''w'' w = (Inr f, w1)"
      "save_file L (h, w) =
         (Inr PyNone,
          (h, (case cls h of
                 BaseHandler \<Rightarrow>
                   w\<lparr>fsys := (fsys w)\<lparr>files := (files (fsys w))(file_path h \<mapsto> payload)\<rparr>,
                     calls := calls w @ [''on_saved_file''],
                     stdout := stdout w @
                       [''Unexpected error saving data: Subclasses must implement on_saved_file()'']\<rparr>
               | ConfigHandler \<Rightarrow>
                   w\<lparr>fsys := (fsys w)\<lparr>files := (files (fsys w))(file_path h \<mapsto> payload)\<rparr>,
                     calls := calls w @ [''on_saved_file'']\<rparr>)))"
proof -
  let ?cd = "deref w (class_data h)"
  consider (nj) "\<not> serialize_json h" "\<not> serialize_yaml h"
    | (jf) e where "serialize_json h" "ujson_dumps L ?cd = Inl e"
    | (yf) e where "\<not> serialize_json h" "serialize_yaml h" "yaml_dump L ?cd = Inl e"
    | (enc) payload where "(serialize_json h \<and> ujson_dumps L ?cd = Inr payload) \<or>
         (\<not> serialize_json h \<and> serialize_yaml h \<and> yaml_dump L ?cd = Inr payload)"
    by (cases "ujson_dumps L ?cd"; cases "yaml_dump L ?cd") auto
  then show thesis
  proof cases
    case nj
    show thesis
      by (rule diagnostic [OF save_file_no_encoder [OF nj]]) (use nj in auto)
  next
    case jf
    have "save_file L (h, w) = (Inr PyNone, (h, snd (DataHandler_serialize_json L ?cd w)))"
      using jf by (rule save_file_json_fail)
    then show thesis
      using jf by (intro diagnostic) (simp_all add: serialize_json_eq)
  next
    case yf
    have "save_file L (h, w) = (Inr PyNone, (h, snd (DataHandler_serialize_yaml L ?cd w)))"
      using yf by (rule save_file_yaml_fail)
    then show thesis
      using yf by (intro diagnostic) (simp_all add: serialize_yaml_eq)
  next
    case enc
    note eq = save_file_encoded [OF enc]
    show thesis
    proof (cases "py_open (file_path h) ''w'' w")
      case (Pair r w1)
      show thesis
      proof (cases r)
        case (Inl e)
        with Pair have o: "py_open (file_path h) ''w'' w = (Inl e, w1)" by simp
        from py_open_error_is_OSError [OF o] have "w1 = w" by simp
        with o eq show thesis
          by (intro diagnostic) auto
      next
        case (Inr f)
        with Pair have o: "py_open (file_path h) ''w'' w = (Inr f, w1)" by simp
        from eq o show thesis
          by (intro written [OF enc o]) simp
      qed
    qed
  qed
qed

lemma py_open_write_ok:
  "is_dir (fsys w) (dirname p) \<Longrightarrow> \<not> is_dir (fsys w) p \<Longrightarrow> p \<notin> locked (fsys w) \<Longrightarrow>
   is_file (fsys w) p \<or> dirname p \<notin> locked (fsys w) \<Longrightarrow>
   py_open p ''w'' w =
     (Inr (PyFile p ''w''), w\<lparr>fsys := (fsys w)\<lparr>files := (files (fsys w))(p \<mapsto> [])\<rparr>\<rparr>)"
  by (auto simp: py_open_def Let_def)

lemma os_mkdir_result:
  "os_mkdir p w = (r, w1) \<Longrightarrow>
     (case r of Inl e \<Rightarrow> w1 = w \<and> isinstance_exn e OSError | Inr u \<Rightarrow> is_dir (fsys w1) p)"
  by (auto simp: os_mkdir_def Let_def is_dir_def os_error_def isinstance_exn_def issubclass_def
      split: if_splits)

lemma makedirs_is_dir:
  assumes "makedirs name True w = (Inr u, w1)"
  shows "is_dir (fsys w1) name"
proof -
  let ?pre = "(if dirname name \<noteq> [] \<and> name \<noteq> [] \<and> \<not> path_exists (fsys w) (dirname name)
            then (case makedirs (dirname name) True w of
                    (Inl e, w1) \<Rightarrow>
                      if isinstance_exn e FileExistsError then (Inr (), w1) else (Inl e, w1)
                  | (Inr u, w1) \<Rightarrow> (Inr u, w1))
            else (Inr (), w))"
  obtain r0 w0 where pre: "?pre = (r0, w0)" by (cases ?pre)
  show ?thesis
  proof (cases r0)
    case (Inl e)
    with pre assms show ?thesis
      by (subst (asm) makedirs.simps) (simp add: Let_def)
  next
    case (Inr u0)
    obtain r2 w2 where mk: "os_mkdir name w0 = (r2, w2)" by (cases "os_mkdir name w0")
    from os_mkdir_result [OF mk] pre Inr assms mk show ?thesis
      by (subst (asm) (2) makedirs.simps)
        (auto simp: Let_def try_except_apply split: sum.splits if_splits)
  qed
qed


lemma BaseHandler_init_result:
  assumes "BaseHandler_init c obj fp j y t w0 = (Inr h, w1)"
  shows "cls h = c \<and> class_obj h = obj \<and> file_path h = fp \<and> serialize_json h = j
         \<and> serialize_yaml h = y \<and> serialize_toml h = t \<and> is_dir (fsys w1) (dirname fp)"
proof (cases "dirname fp = []")
  case True
  with assms show ?thesis
    by (auto simp: BaseHandler_init_def prog_simps Let_def is_dir_def
        split: option.splits sum.splits)
next
  case False
  obtain r w2 where mk: "makedirs (dirname fp) True w0 = (r, w2)"
    by (cases "makedirs (dirname fp) True w0")
  show ?thesis
  proof (cases r)
    case (Inl e)
    with assms False mk show ?thesis
      by (auto simp: BaseHandler_init_def prog_simps Let_def split: option.splits sum.splits)
  next
    case (Inr u)
    with mk have "is_dir (fsys w2) (dirname fp)" by (simp add: makedirs_is_dir)
    with assms False mk Inr show ?thesis
      by (auto simp: BaseHandler_init_def prog_simps Let_def split: option.splits sum.splits)
  qed
qed

section \<open>Saving with TOML as the only format\<close>

lemma BaseHandler_init_cwd:
  "BaseHandler_init c 0 [name] j y t world0 = (Inr (handler_at c j y t [name]), world0)"
  by (simp add: BaseHandler_init_def prog_simps Let_def dirname_def handler_at_def world0_simps)

text \<open>
  C7. The claim asks for a silent save when TOML is the only enabled format. The code at
  \<^verbatim>\<open>BaseHandler(obj, "cfg.toml", serialize_toml=True).save_file()\<close>, in the empty world:
  no file is written, no hook is entered and nothing is raised, as the claim says, but
  one line is printed. With the TOML branch of \<^verbatim>\<open>save_file\<close> commented out no branch
  assigns \<^verbatim>\<open>data\<close>; reading it for the call of \<^verbatim>\<open>write_file\<close> raises
  UnboundLocalError, and the \<^verbatim>\<open>except Exception\<close> of \<^verbatim>\<open>save_file\<close> reports it as an
  unexpected error.
\<close>

theorem save_file_toml_only_prints:
  "BaseHandler_init BaseHandler 0 [''cfg.toml''] False False True world0 =
     (Inr (handler_at BaseHandler False False True [''cfg.toml'']), world0)
   \<and> save_file stub_codecs (handler_at BaseHandler False False True [''cfg.toml''], world0) =
       (Inr PyNone,
        (handler_at BaseHandler False False True [''cfg.toml''],
         world0\<lparr>stdout :=
           [''Unexpected error saving data: cannot access local variable 'data' where it is not associated with a value'']\<rparr>))"
  by (simp add: BaseHandler_init_cwd save_file_no_encoder handler_at_simps world0_simps)

section \<open>Where the parent directory is created\<close>

text \<open>
  C8, as the code has it. \<^verbatim>\<open>save_file\<close> never creates a directory: the set of
  directories after it is the set before it. When the parent directory of the bound path
  is absent at the time of the write, \<^verbatim>\<open>save_file\<close> returns normally and changes the
  world by one printed diagnostic only (nothing is written, no hook is entered). When the
  encoder yields a text, the parent directory is there, and the path is neither a
  directory nor locked, the file holds exactly that text afterwards. The parent
  directory is made by the constructor: after a successful \<^verbatim>\<open>BaseHandler.__init__\<close>
  it exists.
\<close>

theorem save_file_never_creates_directories:
  "dirs (fsys (snd (snd (save_file L (h, w))))) = dirs (fsys w)
   \<and> (\<not> is_dir (fsys w) (dirname (file_path h)) \<longrightarrow>
        (\<exists>line. save_file L (h, w) = (Inr PyNone, (h, w\<lparr>stdout := stdout w @ [line]\<rparr>))))
   \<and> (((serialize_json h \<and> ujson_dumps L (deref w (class_data h)) = Inr payload) \<or>
         (\<not> serialize_json h \<and> serialize_yaml h \<and>
          yaml_dump L (deref w (class_data h)) = Inr payload)) \<and>
        is_dir (fsys w) (dirname (file_path h)) \<and> \<not> is_dir (fsys w) (file_path h) \<and>
        file_path h \<notin> locked (fsys w) \<and> dirname (file_path h) \<notin> locked (fsys w) \<longrightarrow>
        fst (save_file L (h, w)) = Inr PyNone \<and>
        fsys (snd (snd (save_file L (h, w)))) =
          (fsys w)\<lparr>files := (files (fsys w))(file_path h \<mapsto> payload)\<rparr>)
   \<and> (BaseHandler_init c obj fp j y t w0 = (Inr h', w1) \<longrightarrow>
        file_path h' = fp \<and> is_dir (fsys w1) (dirname fp))"
proof (intro conjI impI)
  show "dirs (fsys (snd (snd (save_file L (h, w))))) = dirs (fsys w)"
    by (cases rule: save_file_cases [of L h w]) (simp_all split: handler_class.splits)
next
  assume np: "\<not> is_dir (fsys w) (dirname (file_path h))"
  from py_open_write_no_parent [OF np] obtain e where
    o: "py_open (file_path h) ''w'' w = (Inl e, w)" by blast
  show "\<exists>line. save_file L (h, w) = (Inr PyNone, (h, w\<lparr>stdout := stdout w @ [line]\<rparr>))"
    by (cases rule: save_file_cases [of L h w]) (use o in auto)
next
  assume a: "((serialize_json h \<and> ujson_dumps L (deref w (class_data h)) = Inr payload) \<or>
         (\<not> serialize_json h \<and> serialize_yaml h \<and>
          yaml_dump L (deref w (class_data h)) = Inr payload)) \<and>
        is_dir (fsys w) (dirname (file_path h)) \<and> \<not> is_dir (fsys w) (file_path h) \<and>
        file_path h \<notin> locked (fsys w) \<and> dirname (file_path h) \<notin> locked (fsys w)"
  then have enc: "(serialize_json h \<and> ujson_dumps L (deref w (class_data h)) = Inr payload) \<or>
         (\<not> serialize_json h \<and> serialize_yaml h \<and>
          yaml_dump L (deref w (class_data h)) = Inr payload)" by blast
  from a have o: "py_open (file_path h) ''w'' w =
     (Inr (PyFile (file_path h) ''w''),
      w\<lparr>fsys := (fsys w)\<lparr>files := (files (fsys w))(file_path h \<mapsto> [])\<rparr>\<rparr>)"
    by (intro py_open_write_ok) simp_all
  show "fst (save_file L (h, w)) = Inr PyNone"
    by (simp add: save_file_encoded [OF enc] o)
  show "fsys (snd (snd (save_file L (h, w)))) =
          (fsys w)\<lparr>files := (files (fsys w))(file_path h \<mapsto> payload)\<rparr>"
    by (simp add: save_file_encoded [OF enc] o split: handler_class.splits)
next
  assume "BaseHandler_init c obj fp j y t w0 = (Inr h', w1)"
  from BaseHandler_init_result [OF this] show "file_path h' = fp" by simp
next
  assume "BaseHandler_init c obj fp j y t w0 = (Inr h', w1)"
  from BaseHandler_init_result [OF this] show "is_dir (fsys w1) (dirname fp)" by simp
qed


lemma stub_codecs_simps:
  "ujson_dumps stub_codecs v = Inr ''JSON''"
  "yaml_dump stub_codecs v = Inr ''YAML''"
  "ujson_loads stub_codecs v = Inr (PyDict [(PyStr ''fmt'', PyStr ''json'')])"
  "yaml_safe_load stub_codecs v = Inr (PyDict [(PyStr ''fmt'', PyStr ''yaml'')])"
  "tomllib_loads stub_codecs v = Inr (PyDict [(PyStr ''fmt'', PyStr ''toml'')])"
  by (simp_all add: stub_codecs_def)

lemma makedirs_conf:
  "makedirs [''conf''] True world0 =
     (Inr (), world0\<lparr>fsys := (fsys world0)\<lparr>dirs := {[''conf'']}\<rparr>\<rparr>)"
  by (subst makedirs.simps)
    (simp add: Let_def dirname_def try_except_apply os_mkdir_def path_exists_def is_dir_def
      is_file_def world0_simps)

lemma BaseHandler_init_conf:
  "BaseHandler_init c 0 [''conf'', ''cfg.yml''] j y t world0 =
     (Inr (handler_at c j y t [''conf'', ''cfg.yml'']),
      world0\<lparr>fsys := (fsys world0)\<lparr>dirs := {[''conf'']}\<rparr>\<rparr>)"
  by (simp add: BaseHandler_init_def prog_simps Let_def dirname_def makedirs_conf handler_at_def
      world0_simps)

text \<open>
  The constructor for \<^verbatim>\<open>conf/cfg.yml\<close> makes \<^verbatim>\<open>conf\<close>; a save below a directory that
  is missing changes nothing; a save into the current directory writes the file.
\<close>

theorem save_file_never_creates_directories_witness:
  "\<not> is_dir (fsys world0) (dirname [''missing'', ''cfg.yml''])
   \<and> fsys (snd (snd (save_file stub_codecs
        (handler_at ConfigHandler False True False [''missing'', ''cfg.yml''], world0)))) = fsys world0
   \<and> is_dir (fsys world0) (dirname [''cfg.yml''])
   \<and> files (fsys (snd (snd (save_file stub_codecs
        (handler_at ConfigHandler False True False [''cfg.yml''], world0))))) [''cfg.yml''] = Some ''YAML''
   \<and> dirs (fsys (snd (snd (save_file stub_codecs
        (handler_at ConfigHandler False True False [''cfg.yml''], world0))))) = {}
   \<and> BaseHandler_init BaseHandler 0 [''conf'', ''cfg.yml''] False True False world0 =
       (Inr (handler_at BaseHandler False True False [''conf'', ''cfg.yml'']),
        world0\<lparr>fsys := (fsys world0)\<lparr>dirs := {[''conf'']}\<rparr>\<rparr>)
   \<and> is_dir (fsys (world0\<lparr>fsys := (fsys world0)\<lparr>dirs := {[''conf'']}\<rparr>\<rparr>)) (dirname [''conf'', ''cfg.yml''])"
  using save_file_never_creates_directories
    [of stub_codecs "handler_at ConfigHandler False True False [''missing'', ''cfg.yml'']" world0
      "''YAML''" BaseHandler 0 "[''conf'', ''cfg.yml'']" False True False world0
      "handler_at BaseHandler False True False [''conf'', ''cfg.yml'']"
      "world0\<lparr>fsys := (fsys world0)\<lparr>dirs := {[''conf'']}\<rparr>\<rparr>"]
    save_file_never_creates_directories
    [of stub_codecs "handler_at ConfigHandler False True False [''cfg.yml'']" world0
      "''YAML''" BaseHandler 0 "[''conf'', ''cfg.yml'']" False True False world0
      "handler_at BaseHandler False True False [''conf'', ''cfg.yml'']"
      "world0\<lparr>fsys := (fsys world0)\<lparr>dirs := {[''conf'']}\<rparr>\<rparr>"]
  by (auto simp: handler_at_simps stub_codecs_simps world0_simps is_dir_def dirname_def
      BaseHandler_init_conf)

text \<open>
  C8 as the specification states it fails: with the parent directory absent at the
  moment of the write, the save creates nothing and reports the failed write.
\<close>

theorem save_file_missing_directory:
  "\<not> is_dir (fsys world0) (dirname [''missing'', ''cfg.yml''])
   \<and> save_file stub_codecs (handler_at BaseHandler False True False [''missing'', ''cfg.yml''], world0) =
       (Inr PyNone,
        (handler_at BaseHandler False True False [''missing'', ''cfg.yml''],
         world0\<lparr>stdout :=
           [''Failed to write file missing/cfg.yml, Check that the file is writable.'']\<rparr>))"
proof -
  have enc: "(serialize_json (handler_at BaseHandler False True False [''missing'', ''cfg.yml'']) \<and>
       ujson_dumps stub_codecs (deref world0
         (class_data (handler_at BaseHandler False True False [''missing'', ''cfg.yml'']))) = Inr ''YAML'') \<or>
      (\<not> serialize_json (handler_at BaseHandler False True False [''missing'', ''cfg.yml'']) \<and>
       serialize_yaml (handler_at BaseHandler False True False [''missing'', ''cfg.yml'']) \<and>
       yaml_dump stub_codecs (deref world0
         (class_data (handler_at BaseHandler False True False [''missing'', ''cfg.yml'']))) = Inr ''YAML'')"
    by (simp add: handler_at_simps stub_codecs_simps)
  show ?thesis
    by (simp add: save_file_encoded [OF enc] handler_at_simps py_open_missing_parent
        world0_simps is_dir_def dirname_def)
qed

section \<open>The paths through load\_file\<close>

lemma py_open_read_ok:
  "files (fsys w) p = Some c \<Longrightarrow> \<not> is_dir (fsys w) p \<Longrightarrow> p \<notin> locked (fsys w) \<Longrightarrow>
   py_open p ''r'' w = (Inr (PyFile p ''r''), w)"
  by (simp add: py_open_def Let_def is_file_def)

lemma py_open_read_world:
  "py_open p ''r'' w = (Inr f, w1) \<Longrightarrow> w1 = w"
  by (auto simp: py_open_def Let_def split: if_splits)

lemma read_file_ok:
  "files (fsys w) p = Some c \<Longrightarrow> \<not> is_dir (fsys w) p \<Longrightarrow> p \<notin> locked (fsys w) \<Longrightarrow>
   text_decode w c = Some s \<Longrightarrow>
   read_file p False w = (Inr (PyStr (universal_newlines s)), w)"
  by (simp add: read_file_eq py_open_read_ok Let_def)

lemma read_file_undecodable:
  "files (fsys w) p = Some c \<Longrightarrow> \<not> is_dir (fsys w) p \<Longrightarrow> p \<notin> locked (fsys w) \<Longrightarrow>
   text_decode w c = None \<Longrightarrow>
   read_file p False w =
     (Inr PyNone, w\<lparr>stdout := stdout w @
        [''An unexpected error ocurred while reading file. Error: codec can't decode bytes'']\<rparr>)"
  by (simp add: read_file_eq py_open_read_ok Let_def)

lemma read_file_result:
  "(\<exists>c. read_file p False w = (Inr (PyStr c), w)) \<or>
   (\<exists>line. read_file p False w = (Inr PyNone, w\<lparr>stdout := stdout w @ [line]\<rparr>))"
proof (cases "py_open p ''r'' w")
  case (Pair r w1)
  show ?thesis
  proof (cases r)
    case (Inl e)
    with Pair have "read_file p False w =
       (Inr PyNone, w\<lparr>stdout := stdout w @
             [''Failed to read file '' @ path_str p @
              (if isinstance_exn e FileNotFoundError then '', Check that the file exists.''
               else if isinstance_exn e PermissionError then '', Check permissions.''
               else '', Check that the file is readable.'')]\<rparr>)"
      by (simp add: read_file_eq)
    then show ?thesis by blast
  next
    case (Inr f)
    with Pair have o: "py_open p ''r'' w = (Inr f, w1)" by simp
    from py_open_read_world [OF o] have w1: "w1 = w" .
    let ?c = "case files (fsys w) p of None \<Rightarrow> [] | Some c \<Rightarrow> c"
    show ?thesis
    proof (cases "text_decode w ?c")
      case None
      with o w1 have "read_file p False w =
         (Inr PyNone, w\<lparr>stdout := stdout w @
            [''An unexpected error ocurred while reading file. Error: codec can't decode bytes'']\<rparr>)"
        by (simp add: read_file_eq Let_def)
      then show ?thesis by blast
    next
      case (Some s)
      with o w1 have "read_file p False w = (Inr (PyStr (universal_newlines s)), w)"
        by (simp add: read_file_eq Let_def)
      then show ?thesis by blast
    qed
  qed
qed

text \<open>The decode step of load_file, as one value: what the enabled decoder returns.\<close>

lemma load_file_after_read:
  assumes rd: "read_file (file_path h) False w = (Inr (PyStr c), w)"
  shows "load_file L (h, w) =
     (case (if serialize_json h then DataHandler_deserialize_json L (PyStr c) w
            else if serialize_yaml h then DataHandler_deserialize_yaml L (PyStr c) w
            else if serialize_toml h then DataHandler_deserialize_toml L (PyStr c) w
            else (Inr (PyStr c), w)) of
        (Inl e, w1) \<Rightarrow> (Inr PyNone, (h, w1))
      | (Inr data, w1) \<Rightarrow>
          if data = PyNone then (Inr PyNone, (h, w1))
          else (case on_loaded_file (h\<lparr>class_data := Snapshot data\<rparr>, w1) of
                  (Inl e, (h2, w2)) \<Rightarrow>
                    (Inr PyNone,
                     (h2, w2\<lparr>stdout := stdout w2 @
                        [''Unexpected error loading data: '' @ exn_str e]\<rparr>))
                | (Inr r, s2) \<Rightarrow> (Inr PyNone, s2)))"
proof -
  consider (j) "serialize_json h"
    | (y) "\<not> serialize_json h" "serialize_yaml h"
    | (t) "\<not> serialize_json h" "\<not> serialize_yaml h" "serialize_toml h"
    | (n) "\<not> serialize_json h" "\<not> serialize_yaml h" "\<not> serialize_toml h"
    by blast
  then show ?thesis
  proof cases
    case j
    then show ?thesis
      by (cases "ujson_loads L (PyStr c)")
        (simp_all add: load_file_def prog_simps rd deserialize_json_eq print_return_None_apply
          split: prod.splits sum.splits)
  next
    case y
    then show ?thesis
      by (cases "yaml_safe_load L (PyStr c)")
        (simp_all add: load_file_def prog_simps rd deserialize_yaml_eq print_return_None_apply
          split: prod.splits sum.splits)
  next
    case t
    then show ?thesis
      by (cases "tomllib_loads L (PyStr c)")
        (simp_all add: load_file_def prog_simps rd deserialize_toml_eq print_return_None_apply
          split: prod.splits sum.splits)
  next
    case n
    then show ?thesis
      by (simp add: load_file_def prog_simps rd print_return_None_apply
          split: prod.splits sum.splits)
  qed
qed


lemma load_file_read_failed:
  "read_file (file_path h) False w = (Inr PyNone, w1) \<Longrightarrow> load_file L (h, w) = (Inr PyNone, (h, w1))"
  by (simp add: load_file_def prog_simps)

text \<open>
  C9. With all three format flags disabled and a file at the bound path that
  \<^verbatim>\<open>read_file\<close> reads (it returns the text of the file, a str), \<^verbatim>\<open>load_file\<close> decodes
  nothing: \<^verbatim>\<open>class_data\<close> becomes that text, as a str, and \<^verbatim>\<open>on_loaded_file\<close> is
  entered. The hook then fails (on a base handler because it is abstract; on a
  ConfigHandler because a str is no mapping to merge) and \<^verbatim>\<open>load_file\<close> prints that
  error, one line, and returns normally, with \<^verbatim>\<open>class_data\<close> replaced.
\<close>

theorem load_file_without_format:
  assumes flags: "\<not> serialize_json h" "\<not> serialize_yaml h" "\<not> serialize_toml h"
    and readable: "read_file (file_path h) False w = (Inr (PyStr c), w)"
  shows "\<exists>line.
     load_file L (h, w) =
       (Inr PyNone,
        (h\<lparr>class_data := Snapshot (PyStr c)\<rparr>,
         w\<lparr>calls := calls w @ [''on_loaded_file''], stdout := stdout w @ [line]\<rparr>))
     \<and> (cls h = BaseHandler \<longrightarrow>
          line = ''Unexpected error loading data: Subclasses must implement on_loaded_file()'')"
proof -
  have eq: "load_file L (h, w) =
     (Inr PyNone,
      (h\<lparr>class_data := Snapshot (PyStr c)\<rparr>,
       w\<lparr>calls := calls w @ [''on_loaded_file''],
         stdout := stdout w @
           [''Unexpected error loading data: '' @
            (case cls h of
               BaseHandler \<Rightarrow> ''Subclasses must implement on_loaded_file()''
             | ConfigHandler \<Rightarrow>
                 ''dict.update() argument after ** must be a mapping, not str'')]\<rparr>))"
    by (cases "cls h")
      (simp_all add: load_file_after_read [OF readable] flags on_loaded_file_apply
        update_global_apply)
  show ?thesis
    by (rule exI [of _ "''Unexpected error loading data: '' @
            (case cls h of
               BaseHandler \<Rightarrow> ''Subclasses must implement on_loaded_file()''
             | ConfigHandler \<Rightarrow>
                 ''dict.update() argument after ** must be a mapping, not str'')"])
      (simp add: eq)
qed

lemma ascii_decode_text:
  "ascii_decode ''a: 1'' = Some ''a: 1''"
  "universal_newlines ''a: 1'' = ''a: 1''"
  by (simp_all add: ascii_decode_def)

lemma read_file_notes:
  "read_file [''notes.txt''] False
     (world0\<lparr>fsys := (fsys world0)\<lparr>files := [[''notes.txt''] \<mapsto> ''a: 1'']\<rparr>\<rparr>) =
     (Inr (PyStr ''a: 1''),
      world0\<lparr>fsys := (fsys world0)\<lparr>files := [[''notes.txt''] \<mapsto> ''a: 1'']\<rparr>\<rparr>)"
  using read_file_ok
    [of "world0\<lparr>fsys := (fsys world0)\<lparr>files := [[''notes.txt''] \<mapsto> ''a: 1'']\<rparr>\<rparr>"
      "[''notes.txt'']" "''a: 1''" "''a: 1''"]
  by (simp add: world0_simps is_dir_def ascii_decode_text)

text \<open>
  A base handler without format flags, and the file \<^verbatim>\<open>notes.txt\<close> holding \<^verbatim>\<open>a: 1\<close>:
  the text is read, it becomes \<^verbatim>\<open>class_data\<close>, and the hook is entered.
\<close>

theorem load_file_without_format_witness:
  "\<not> serialize_json (handler_at BaseHandler False False False [''notes.txt''])
   \<and> \<not> serialize_yaml (handler_at BaseHandler False False False [''notes.txt''])
   \<and> \<not> serialize_toml (handler_at BaseHandler False False False [''notes.txt''])
   \<and> read_file (file_path (handler_at BaseHandler False False False [''notes.txt''])) False
        (world0\<lparr>fsys := (fsys world0)\<lparr>files := [[''notes.txt''] \<mapsto> ''a: 1'']\<rparr>\<rparr>) =
       (Inr (PyStr ''a: 1''),
        world0\<lparr>fsys := (fsys world0)\<lparr>files := [[''notes.txt''] \<mapsto> ''a: 1'']\<rparr>\<rparr>)
   \<and> load_file stub_codecs
        (handler_at BaseHandler False False False [''notes.txt''],
         world0\<lparr>fsys := (fsys world0)\<lparr>files := [[''notes.txt''] \<mapsto> ''a: 1'']\<rparr>\<rparr>) =
       (Inr PyNone,
        ((handler_at BaseHandler False False False [''notes.txt''])
           \<lparr>class_data := Snapshot (PyStr ''a: 1'')\<rparr>,
         world0\<lparr>fsys := (fsys world0)\<lparr>files := [[''notes.txt''] \<mapsto> ''a: 1'']\<rparr>,
           calls := [''on_loaded_file''],
           stdout :=
             [''Unexpected error loading data: Subclasses must implement on_loaded_file()'']\<rparr>))"
proof -
  have rd: "read_file (file_path (handler_at BaseHandler False False False [''notes.txt''])) False
        (world0\<lparr>fsys := (fsys world0)\<lparr>files := [[''notes.txt''] \<mapsto> ''a: 1'']\<rparr>\<rparr>) =
       (Inr (PyStr ''a: 1''),
        world0\<lparr>fsys := (fsys world0)\<lparr>files := [[''notes.txt''] \<mapsto> ''a: 1'']\<rparr>\<rparr>)"
    by (simp add: handler_at_simps read_file_notes)
  from load_file_without_format [OF _ _ _ rd, of stub_codecs] rd show ?thesis
    by (auto simp: handler_at_simps world0_simps)
qed

lemma write_file_str_True:
  "fst (write_file p (PyStr s) w) = Inr (PyBool True) \<longleftrightarrow>
     (\<exists>f w1. py_open p ''w'' w = (Inr f, w1))"
  by (cases "py_open p ''w'' w") (auto simp: write_file_str_eq split: sum.splits)

lemma write_file_str_world:
  "py_open p ''w'' w = (Inr f, w1) \<Longrightarrow>
   snd (write_file p (PyStr s) w) = w\<lparr>fsys := (fsys w)\<lparr>files := (files (fsys w))(p \<mapsto> s)\<rparr>\<rparr>"
  by (simp add: write_file_str_eq)

lemma base_save_reaches_hook:
  assumes base: "cls h = BaseHandler"
    and enc: "(serialize_json h \<and> ujson_dumps L (deref w (class_data h)) = Inr payload) \<or>
       (\<not> serialize_json h \<and> serialize_yaml h \<and>
        yaml_dump L (deref w (class_data h)) = Inr payload)"
    and wr: "fst (write_file (file_path h) (PyStr payload) w) = Inr (PyBool True)"
  shows "save_file L (h, w) =
     (Inr PyNone,
      (h, (snd (write_file (file_path h) (PyStr payload) w))
            \<lparr>calls := calls w @ [''on_saved_file''],
              stdout := stdout w @
                [''Unexpected error saving data: Subclasses must implement on_saved_file()'']\<rparr>))"
proof -
  from wr obtain f w1 where o: "py_open (file_path h) ''w'' w = (Inr f, w1)"
    by (auto simp: write_file_str_True)
  show ?thesis
    by (simp add: save_file_encoded [OF enc] o base write_file_str_world [OF o])
qed

lemma save_skips_hook:
  assumes none: "\<not> (\<exists>payload.
       ((serialize_json h \<and> ujson_dumps L (deref w (class_data h)) = Inr payload) \<or>
        (\<not> serialize_json h \<and> serialize_yaml h \<and>
         yaml_dump L (deref w (class_data h)) = Inr payload)) \<and>
       fst (write_file (file_path h) (PyStr payload) w) = Inr (PyBool True))"
  shows "\<exists>line. save_file L (h, w) = (Inr PyNone, (h, w\<lparr>stdout := stdout w @ [line]\<rparr>))"
proof (cases rule: save_file_cases [of L h w])
  case (diagnostic line)
  then show ?thesis by blast
next
  case (written payload f w1)
  from written(2) have "fst (write_file (file_path h) (PyStr payload) w) = Inr (PyBool True)"
    by (auto simp: write_file_str_True)
  with written(1) none show ?thesis by blast
qed


lemma base_load_reaches_hook:
  assumes base: "cls h = BaseHandler"
    and rd: "read_file (file_path h) False w = (Inr (PyStr c), w)"
    and dec: "(serialize_json h \<and> ujson_loads L (PyStr c) = Inr data) \<or>
       (\<not> serialize_json h \<and> serialize_yaml h \<and> yaml_safe_load L (PyStr c) = Inr data) \<or>
       (\<not> serialize_json h \<and> \<not> serialize_yaml h \<and> serialize_toml h \<and>
        tomllib_loads L (PyStr c) = Inr data) \<or>
       (\<not> serialize_json h \<and> \<not> serialize_yaml h \<and> \<not> serialize_toml h \<and> data = PyStr c)"
    and nn: "data \<noteq> PyNone"
  shows "load_file L (h, w) =
     (Inr PyNone,
      (h\<lparr>class_data := Snapshot data\<rparr>,
       w\<lparr>calls := calls w @ [''on_loaded_file''],
         stdout := stdout w @
           [''Unexpected error loading data: Subclasses must implement on_loaded_file()'']\<rparr>))"
  using dec
  by (elim disjE conjE)
    (simp_all add: load_file_after_read [OF rd] deserialize_json_eq deserialize_yaml_eq
      deserialize_toml_eq nn on_loaded_file_apply base)

lemma deserialize_json_fails:
  "ujson_loads L d = Inl e \<Longrightarrow>
   \<exists>line. DataHandler_deserialize_json L d w = (Inr PyNone, w\<lparr>stdout := stdout w @ [line]\<rparr>)"
  by (simp only: deserialize_json_eq sum.case) blast

lemma deserialize_yaml_fails:
  "yaml_safe_load L d = Inl e \<Longrightarrow>
   \<exists>line. DataHandler_deserialize_yaml L d w = (Inr PyNone, w\<lparr>stdout := stdout w @ [line]\<rparr>)"
  by (simp only: deserialize_yaml_eq sum.case) blast

lemma deserialize_toml_fails:
  "tomllib_loads L d = Inl e \<Longrightarrow>
   \<exists>line. DataHandler_deserialize_toml L d w = (Inr PyNone, w\<lparr>stdout := stdout w @ [line]\<rparr>)"
  by (simp only: deserialize_toml_eq sum.case) blast

lemma load_skips_hook:
  assumes none: "\<not> (\<exists>c data. read_file (file_path h) False w = (Inr (PyStr c), w) \<and>
       data \<noteq> PyNone \<and>
       ((serialize_json h \<and> ujson_loads L (PyStr c) = Inr data) \<or>
        (\<not> serialize_json h \<and> serialize_yaml h \<and> yaml_safe_load L (PyStr c) = Inr data) \<or>
        (\<not> serialize_json h \<and> \<not> serialize_yaml h \<and> serialize_toml h \<and>
         tomllib_loads L (PyStr c) = Inr data) \<or>
        (\<not> serialize_json h \<and> \<not> serialize_yaml h \<and> \<not> serialize_toml h \<and> data = PyStr c)))"
  shows "load_file L (h, w) = (Inr PyNone, (h, w)) \<or>
     (\<exists>line. load_file L (h, w) = (Inr PyNone, (h, w\<lparr>stdout := stdout w @ [line]\<rparr>)))"
proof -
  from read_file_result [of "file_path h" w]
  consider (ok) c where "read_file (file_path h) False w = (Inr (PyStr c), w)"
    | (failed) line where
      "read_file (file_path h) False w = (Inr PyNone, w\<lparr>stdout := stdout w @ [line]\<rparr>)"
    by blast
  then show ?thesis
  proof cases
    case failed
    from load_file_read_failed [OF failed] show ?thesis by blast
  next
    case ok
    note eq = load_file_after_read [OF ok, of L]
    consider (j) "serialize_json h"
      | (y) "\<not> serialize_json h" "serialize_yaml h"
      | (t) "\<not> serialize_json h" "\<not> serialize_yaml h" "serialize_toml h"
      | (n) "\<not> serialize_json h" "\<not> serialize_yaml h" "\<not> serialize_toml h"
      by blast
    then show ?thesis
    proof cases
      case j
      show ?thesis
      proof (cases "ujson_loads L (PyStr c)")
        case (Inl e)
        from deserialize_json_fails [OF Inl, of w] obtain line where
          "DataHandler_deserialize_json L (PyStr c) w =
             (Inr PyNone, w\<lparr>stdout := stdout w @ [line]\<rparr>)" by blast
        with j eq have "load_file L (h, w) =
            (Inr PyNone, (h, w\<lparr>stdout := stdout w @ [line]\<rparr>))" by simp
        then show ?thesis by blast
      next
        case (Inr data)
        with none ok j have "data = PyNone" by blast
        with j eq Inr show ?thesis by (simp add: deserialize_json_eq)
      qed
    next
      case y
      show ?thesis
      proof (cases "yaml_safe_load L (PyStr c)")
        case (Inl e)
        from deserialize_yaml_fails [OF Inl, of w] obtain line where
          "DataHandler_deserialize_yaml L (PyStr c) w =
             (Inr PyNone, w\<lparr>stdout := stdout w @ [line]\<rparr>)" by blast
        with y eq have "load_file L (h, w) =
            (Inr PyNone, (h, w\<lparr>stdout := stdout w @ [line]\<rparr>))" by simp
        then show ?thesis by blast
      next
        case (Inr data)
        with none ok y have "data = PyNone" by blast
        with y eq Inr show ?thesis by (simp add: deserialize_yaml_eq)
      qed
    next
      case t
      show ?thesis
      proof (cases "tomllib_loads L (PyStr c)")
        case (Inl e)
        from deserialize_toml_fails [OF Inl, of w] obtain line where
          "DataHandler_deserialize_toml L (PyStr c) w =
             (Inr PyNone, w\<lparr>stdout := stdout w @ [line]\<rparr>)" by blast
        with t eq have "load_file L (h, w) =
            (Inr PyNone, (h, w\<lparr>stdout := stdout w @ [line]\<rparr>))" by simp
        then show ?thesis by blast
      next
        case (Inr data)
        with none ok t have "data = PyNone" by blast
        with t eq Inr show ?thesis by (simp add: deserialize_toml_eq)
      qed
    next
      case n
      with none ok have False by blast
      then show ?thesis ..
    qed
  qed
qed


section \<open>The abstract hooks of a base handler\<close>

text \<open>
  C1, as the code has it. On a base handler both hooks raise NotImplementedError when
  they are entered. \<^verbatim>\<open>save_file\<close> enters \<^verbatim>\<open>on_saved_file\<close> exactly when the enabled
  encoder returned a text and \<^verbatim>\<open>write_file\<close> returned True; \<^verbatim>\<open>load_file\<close> enters
  \<^verbatim>\<open>on_loaded_file\<close> exactly when the file was read and the enabled decoder (or none)
  gave a value other than None. In that case the error of the hook is caught by the
  \<^verbatim>\<open>except Exception\<close> of the method, which prints it and returns normally: the file is
  written, or \<^verbatim>\<open>class_data\<close> replaced, the hook is recorded as entered and one line
  \<^verbatim>\<open>Unexpected error ...: Subclasses must implement ...\<close> is printed. In every other case
  the method returns normally as well, with no hook entered and at most one diagnostic.
  No exception leaves \<^verbatim>\<open>save_file\<close> or \<^verbatim>\<open>load_file\<close>.
\<close>

theorem base_handler_hook_error_is_caught:
  assumes base: "cls h = BaseHandler"
  shows
  "on_saved_file (h, w) =
     (Inl (PyExn NotImplementedError ''Subclasses must implement on_saved_file()''),
      (h, w\<lparr>calls := calls w @ [''on_saved_file'']\<rparr>))
   \<and> on_loaded_file (h, w) =
     (Inl (PyExn NotImplementedError ''Subclasses must implement on_loaded_file()''),
      (h, w\<lparr>calls := calls w @ [''on_loaded_file'']\<rparr>))
   \<and> (((serialize_json h \<and> ujson_dumps L (deref w (class_data h)) = Inr payload) \<or>
         (\<not> serialize_json h \<and> serialize_yaml h \<and>
          yaml_dump L (deref w (class_data h)) = Inr payload)) \<and>
        fst (write_file (file_path h) (PyStr payload) w) = Inr (PyBool True) \<longrightarrow>
        save_file L (h, w) =
          (Inr PyNone,
           (h, (snd (write_file (file_path h) (PyStr payload) w))
                 \<lparr>calls := calls w @ [''on_saved_file''],
                   stdout := stdout w @
                     [''Unexpected error saving data: Subclasses must implement on_saved_file()'']\<rparr>)))
   \<and> (\<not> (\<exists>p. ((serialize_json h \<and> ujson_dumps L (deref w (class_data h)) = Inr p) \<or>
                 (\<not> serialize_json h \<and> serialize_yaml h \<and>
                  yaml_dump L (deref w (class_data h)) = Inr p)) \<and>
                fst (write_file (file_path h) (PyStr p) w) = Inr (PyBool True)) \<longrightarrow>
        (\<exists>line. save_file L (h, w) = (Inr PyNone, (h, w\<lparr>stdout := stdout w @ [line]\<rparr>))))
   \<and> (read_file (file_path h) False w = (Inr (PyStr c), w) \<and> data \<noteq> PyNone \<and>
        ((serialize_json h \<and> ujson_loads L (PyStr c) = Inr data) \<or>
         (\<not> serialize_json h \<and> serialize_yaml h \<and> yaml_safe_load L (PyStr c) = Inr data) \<or>
         (\<not> serialize_json h \<and> \<not> serialize_yaml h \<and> serialize_toml h \<and>
          tomllib_loads L (PyStr c) = Inr data) \<or>
         (\<not> serialize_json h \<and> \<not> serialize_yaml h \<and> \<not> serialize_toml h \<and>
          data = PyStr c)) \<longrightarrow>
        load_file L (h, w) =
          (Inr PyNone,
           (h\<lparr>class_data := Snapshot data\<rparr>,
            w\<lparr>calls := calls w @ [''on_loaded_file''],
              stdout := stdout w @
                [''Unexpected error loading data: Subclasses must implement on_loaded_file()'']\<rparr>)))
   \<and> (\<not> (\<exists>c d. read_file (file_path h) False w = (Inr (PyStr c), w) \<and> d \<noteq> PyNone \<and>
          ((serialize_json h \<and> ujson_loads L (PyStr c) = Inr d) \<or>
           (\<not> serialize_json h \<and> serialize_yaml h \<and> yaml_safe_load L (PyStr c) = Inr d) \<or>
           (\<not> serialize_json h \<and> \<not> serialize_yaml h \<and> serialize_toml h \<and>
            tomllib_loads L (PyStr c) = Inr d) \<or>
           (\<not> serialize_json h \<and> \<not> serialize_yaml h \<and> \<not> serialize_toml h \<and>
            d = PyStr c))) \<longrightarrow>
        load_file L (h, w) = (Inr PyNone, (h, w)) \<or>
        (\<exists>line. load_file L (h, w) = (Inr PyNone, (h, w\<lparr>stdout := stdout w @ [line]\<rparr>))))"
  apply (intro conjI impI)
  subgoal by (simp add: on_saved_file_apply base)
  subgoal by (simp add: on_loaded_file_apply base)
  subgoal by (elim conjE, rule base_save_reaches_hook [OF base], assumption+)
  subgoal by (rule save_skips_hook)
  subgoal by (elim conjE, rule base_load_reaches_hook [OF base], assumption+)
  subgoal by (rule load_skips_hook)
  done


lemma world_cfg_simps:
  "heap world_cfg = (\<lambda>a. \<lparr>dataclass_fields = None, attrs = []\<rparr>)"
  "configData world_cfg = 0"
  "fsys world_cfg = \<lparr>dirs = {}, files = [[''cfg.yml''] \<mapsto> ''a: 1''], locked = {}\<rparr>"
  "text_decode world_cfg = ascii_decode"
  "stdout world_cfg = []"
  "calls world_cfg = []"
  by (simp_all add: world_cfg_def)

lemma read_file_cfg:
  "read_file [''cfg.yml''] False world_cfg = (Inr (PyStr ''a: 1''), world_cfg)"
  using read_file_ok [of world_cfg "[''cfg.yml'']" "''a: 1''" "''a: 1''"]
  by (simp add: world_cfg_simps is_dir_def ascii_decode_text)

lemma read_file_nothing:
  "read_file [''cfg.yml''] False world0 =
     (Inr PyNone,
      world0\<lparr>stdout := [''Failed to read file cfg.yml, Check that the file exists.'']\<rparr>)"
  by (simp add: read_file_absent path_exists_def is_dir_def is_file_def dirname_def world0_simps)

text \<open>
  C1 as the specification states it fails: a base handler whose save reaches the hook
  returns normally; the NotImplementedError does not reach the caller.
\<close>

theorem base_save_file_returns_normally:
  "cls (handler_at BaseHandler True False False [''cfg.yml'']) = BaseHandler
   \<and> calls (snd (snd (save_file stub_codecs
        (handler_at BaseHandler True False False [''cfg.yml''], world0)))) = [''on_saved_file'']
   \<and> fst (save_file stub_codecs
        (handler_at BaseHandler True False False [''cfg.yml''], world0)) = Inr PyNone
   \<and> fst (save_file stub_codecs
        (handler_at BaseHandler True False False [''cfg.yml''], world0)) \<noteq>
       Inl (PyExn NotImplementedError ''Subclasses must implement on_saved_file()'')
   \<and> stdout (snd (snd (save_file stub_codecs
        (handler_at BaseHandler True False False [''cfg.yml''], world0)))) =
       [''Unexpected error saving data: Subclasses must implement on_saved_file()'']"
proof -
  have "save_file stub_codecs (handler_at BaseHandler True False False [''cfg.yml''], world0) =
     (Inr PyNone,
      (handler_at BaseHandler True False False [''cfg.yml''],
       (snd (write_file [''cfg.yml''] (PyStr ''JSON'') world0))
         \<lparr>calls := [''on_saved_file''],
           stdout :=
             [''Unexpected error saving data: Subclasses must implement on_saved_file()'']\<rparr>))"
    using base_save_reaches_hook
      [of "handler_at BaseHandler True False False [''cfg.yml'']" stub_codecs world0 "''JSON''"]
    by (simp add: handler_at_simps stub_codecs_simps world0_simps write_file_str_eq py_open_cfg)
  then show ?thesis
    by (simp add: handler_at_simps)
qed


text \<open>
  A base handler with the JSON flag: a save that reaches the hook, a load that reaches
  the hook, a save below a missing directory and a load of a missing file.
\<close>

theorem base_handler_hook_error_is_caught_witness:
  "cls (handler_at BaseHandler True False False [''cfg.yml'']) = BaseHandler
   \<and> save_file stub_codecs (handler_at BaseHandler True False False [''cfg.yml''], world0) =
       (Inr PyNone,
        (handler_at BaseHandler True False False [''cfg.yml''],
         world0\<lparr>fsys := (fsys world0)\<lparr>files := [[''cfg.yml''] \<mapsto> ''JSON'']\<rparr>,
           calls := [''on_saved_file''],
           stdout :=
             [''Unexpected error saving data: Subclasses must implement on_saved_file()'']\<rparr>))
   \<and> load_file stub_codecs
        (handler_at BaseHandler True False False [''cfg.yml''], world_cfg) =
       (Inr PyNone,
        ((handler_at BaseHandler True False False [''cfg.yml''])
           \<lparr>class_data := Snapshot (PyDict [(PyStr ''fmt'', PyStr ''json'')])\<rparr>,
         world_cfg\<lparr>calls := [''on_loaded_file''],
           stdout :=
             [''Unexpected error loading data: Subclasses must implement on_loaded_file()'']\<rparr>))
   \<and> calls (snd (snd (save_file stub_codecs
        (handler_at BaseHandler True False False [''missing'', ''cfg.yml''], world0)))) = []
   \<and> calls (snd (snd (load_file stub_codecs
        (handler_at BaseHandler True False False [''cfg.yml''], world0)))) = []"
proof -
  let ?h = "handler_at BaseHandler True False False [''cfg.yml'']"
  let ?g = "handler_at BaseHandler True False False [''missing'', ''cfg.yml'']"
  let ?wf = "world_cfg"
  have base: "cls ?h = BaseHandler" "cls ?g = BaseHandler"
    by (simp_all add: handler_at_simps)
  have a: "save_file stub_codecs (?h, world0) =
       (Inr PyNone,
        (?h, world0\<lparr>fsys := (fsys world0)\<lparr>files := [[''cfg.yml''] \<mapsto> ''JSON'']\<rparr>,
           calls := [''on_saved_file''],
           stdout :=
             [''Unexpected error saving data: Subclasses must implement on_saved_file()'']\<rparr>))"
    using base_handler_hook_error_is_caught
      [OF base(1), where w = world0 and L = stub_codecs and payload = "''JSON''"]
    by (simp add: handler_at_simps stub_codecs_simps world0_simps write_file_str_eq py_open_cfg)
  have b: "load_file stub_codecs (?h, ?wf) =
       (Inr PyNone,
        (?h\<lparr>class_data := Snapshot (PyDict [(PyStr ''fmt'', PyStr ''json'')])\<rparr>,
         ?wf\<lparr>calls := [''on_loaded_file''],
           stdout :=
             [''Unexpected error loading data: Subclasses must implement on_loaded_file()'']\<rparr>))"
    using base_handler_hook_error_is_caught
      [OF base(1), where w = ?wf and L = stub_codecs and c = "''a: 1''"
        and data = "PyDict [(PyStr ''fmt'', PyStr ''json'')]"]
    by (simp add: handler_at_simps stub_codecs_simps world_cfg_simps read_file_cfg)
  have c: "calls (snd (snd (save_file stub_codecs (?g, world0)))) = []"
  proof -
    have "\<exists>line. save_file stub_codecs (?g, world0) =
        (Inr PyNone, (?g, world0\<lparr>stdout := stdout world0 @ [line]\<rparr>))"
      using base_handler_hook_error_is_caught
        [OF base(2), where w = world0 and L = stub_codecs and payload = "''JSON''"
          and c = "''a: 1''" and data = PyNone]
      by (simp add: handler_at_simps stub_codecs_simps write_file_str_eq py_open_missing_parent)
    then show ?thesis by (auto simp: world0_simps)
  qed
  have d: "calls (snd (snd (load_file stub_codecs (?h, world0)))) = []"
  proof -
    have "load_file stub_codecs (?h, world0) = (Inr PyNone, (?h, world0)) \<or>
        (\<exists>line. load_file stub_codecs (?h, world0) =
           (Inr PyNone, (?h, world0\<lparr>stdout := stdout world0 @ [line]\<rparr>)))"
      using base_handler_hook_error_is_caught
        [OF base(1), where w = world0 and L = stub_codecs and payload = "''JSON''"
          and c = "''a: 1''" and data = PyNone]
      by (simp add: handler_at_simps read_file_nothing)
    then show ?thesis by (auto simp: world0_simps)
  qed
  from base(1) a b c d show ?thesis by simp
qed

section \<open>ConfigHandler.update\_global\<close>

lemma map_of_rev_distinct:
  "distinct (map fst xs) \<Longrightarrow> map_of (rev xs) = map_of xs"
proof (induction xs)
  case Nil
  then show ?case by simp
next
  case (Cons x xs)
  obtain k v where x: "x = (k, v)" by (cases x)
  from Cons.prems x have k: "map_of xs k = None"
    by (simp add: map_of_eq_None_iff)
  from Cons x have ih: "map_of (rev xs) = map_of xs" by simp
  show ?case
    by (rule ext) (simp add: x ih map_add_def k split: option.splits)
qed

lemma map_of_dict_update_rev:
  "map_of (dict_update d kvs) = map_of d ++ map_of (rev kvs)"
  unfolding dict_update_def
proof (induction kvs arbitrary: d)
  case Nil
  then show ?case by simp
next
  case (Cons x kvs)
  obtain k v where x: "x = (k, v)" by (cases x)
  show ?case
    by (rule ext) (simp add: x Cons.IH update_conv' map_add_def split: option.splits)
qed

lemma map_of_dict_update:
  "distinct (map fst kvs) \<Longrightarrow> map_of (dict_update d kvs) = map_of d ++ map_of kvs"
  by (simp add: map_of_dict_update_rev map_of_rev_distinct)

lemma str_keys_map:
  "str_keys (map (\<lambda>(k, v). (PyStr k, v)) kvs) = Inr kvs"
  by (induction kvs) auto

lemma keyword_args_record:
  "keyword_args (PyDict (map (\<lambda>(k, v). (PyStr k, v)) kvs)) = Inr kvs"
  by (simp add: str_keys_map)


lemma world_two_simps:
  "heap world_two a =
     (if a = 0
      then \<lparr>dataclass_fields = None, attrs = [(''a'', PyInt 1), (''b'', PyInt 2)]\<rparr>
      else \<lparr>dataclass_fields = None, attrs = [(''b'', PyInt 3), (''c'', PyInt 4)]\<rparr>)"
  "configData world_two = 0"
  "fsys world_two = \<lparr>dirs = {}, files = Map.empty, locked = {}\<rparr>"
  "text_decode world_two = ascii_decode"
  "stdout world_two = []"
  "calls world_two = []"
  by (simp_all add: world_two_def)

text \<open>
  C2. On a ConfigHandler whose \<^verbatim>\<open>class_data\<close> is a record (a dict with string keys, each
  key once), \<^verbatim>\<open>update_global\<close> returns normally and changes nothing but the attribute
  dictionary of the object bound to \<^verbatim>\<open>configData\<close>: afterwards that dictionary maps
  every key of the record to the record's value and every other name to what it held
  before.
\<close>

theorem update_global_merges_record:
  assumes cfg: "cls h = ConfigHandler"
    and loaded: "deref w (class_data h) = PyDict (map (\<lambda>(k, v). (PyStr k, v)) record)"
    and dist: "distinct (map fst record)"
  shows "update_global (h, w) =
       (Inr PyNone,
        (h, w\<lparr>heap := (heap w)(configData w :=
              (heap w (configData w))
                \<lparr>attrs := dict_update (attrs (heap w (configData w))) record\<rparr>)\<rparr>))
     \<and> map_of (dict_update (attrs (heap w (configData w))) record) =
         map_of (attrs (heap w (configData w))) ++ map_of record
     \<and> (\<forall>k v. (k, v) \<in> set record \<longrightarrow>
           map_of (dict_update (attrs (heap w (configData w))) record) k = Some v)
     \<and> (\<forall>k. k \<notin> fst ` set record \<longrightarrow>
           map_of (dict_update (attrs (heap w (configData w))) record) k =
           map_of (attrs (heap w (configData w))) k)"
proof (intro conjI allI impI)
  show "update_global (h, w) =
       (Inr PyNone,
        (h, w\<lparr>heap := (heap w)(configData w :=
              (heap w (configData w))
                \<lparr>attrs := dict_update (attrs (heap w (configData w))) record\<rparr>)\<rparr>))"
    by (simp add: update_global_apply cfg loaded str_keys_map)
  show "map_of (dict_update (attrs (heap w (configData w))) record) =
         map_of (attrs (heap w (configData w))) ++ map_of record"
    using dist by (rule map_of_dict_update)
next
  fix k v
  assume "(k, v) \<in> set record"
  with dist have "map_of record k = Some v" by simp
  then show "map_of (dict_update (attrs (heap w (configData w))) record) k = Some v"
    by (simp add: map_of_dict_update [OF dist] map_add_def)
next
  fix k
  assume "k \<notin> fst ` set record"
  then have "map_of record k = None" by (simp add: map_of_eq_None_iff)
  then show "map_of (dict_update (attrs (heap w (configData w))) record) k =
           map_of (attrs (heap w (configData w))) k"
    by (simp add: map_of_dict_update [OF dist] map_add_def)
qed

text \<open>The example of the specification: a = 1, b = 2 merged with b = 3, c = 4.\<close>

theorem update_global_merges_record_witness:
  "attrs (heap world_two (configData world_two)) = [(''a'', PyInt 1), (''b'', PyInt 2)]
   \<and> fst (update_global
        ((handler_at ConfigHandler False True False [''cfg.yml''])
           \<lparr>class_data := Snapshot (PyDict [(PyStr ''b'', PyInt 3), (PyStr ''c'', PyInt 4)])\<rparr>,
         world_two)) = Inr PyNone
   \<and> attrs (heap (snd (snd (update_global
        ((handler_at ConfigHandler False True False [''cfg.yml''])
           \<lparr>class_data := Snapshot (PyDict [(PyStr ''b'', PyInt 3), (PyStr ''c'', PyInt 4)])\<rparr>,
         world_two)))) (configData world_two)) =
       [(''a'', PyInt 1), (''b'', PyInt 3), (''c'', PyInt 4)]"
  using update_global_merges_record
    [of "(handler_at ConfigHandler False True False [''cfg.yml''])
           \<lparr>class_data := Snapshot (PyDict [(PyStr ''b'', PyInt 3), (PyStr ''c'', PyInt 4)])\<rparr>"
      world_two "[(''b'', PyInt 3), (''c'', PyInt 4)]"]
  by (simp add: handler_at_def world_two_simps dict_update_def)


lemma ConfigHandler_init_result:
  assumes "ConfigHandler_init fp cobj kwargs w0 = (Inr h, w1)"
  shows "cls h = ConfigHandler
     \<and> class_obj h = (case cobj of None \<Rightarrow> configData w0 | Some a \<Rightarrow> a)
     \<and> file_path h = fp
     \<and> serialize_yaml h
     \<and> serialize_json h = (map_of kwargs ''serialize_json'' = Some True)
     \<and> serialize_toml h = (map_of kwargs ''serialize_toml'' = Some True)
     \<and> ''serialize_yaml'' \<notin> set (map fst kwargs)"
proof -
  let ?j = "case map_of kwargs ''serialize_json'' of None \<Rightarrow> False | Some b \<Rightarrow> b"
  let ?t = "case map_of kwargs ''serialize_toml'' of None \<Rightarrow> False | Some b \<Rightarrow> b"
  let ?obj = "case cobj of None \<Rightarrow> configData w0 | Some a \<Rightarrow> a"
  from assms have ny: "''serialize_yaml'' \<notin> set (map fst kwargs)"
    by (auto simp: ConfigHandler_init_def Let_def split: if_splits)
  from assms have "BaseHandler_init ConfigHandler ?obj fp ?j True ?t w0 = (Inr h, w1)"
    by (auto simp: ConfigHandler_init_def Let_def split: if_splits list.splits)
  from BaseHandler_init_result [OF this] ny show ?thesis
    by (auto split: option.splits)
qed

text \<open>
  C10. A ConfigHandler constructed with a \<^verbatim>\<open>config_obj\<close> argument keeps it as
  \<^verbatim>\<open>class_obj\<close>. When that object is not the one bound to the module-level name
  \<^verbatim>\<open>configData\<close>, \<^verbatim>\<open>update_global\<close> leaves it as it was, as it leaves every object
  other than the module-level one; when the data to merge is a mapping with string
  keys, the merge goes into the attributes of the module-level object.
\<close>

theorem update_global_targets_module_singleton:
  assumes cfg: "cls h = ConfigHandler"
    and other: "class_obj h \<noteq> configData w"
  shows "heap (snd (snd (update_global (h, w)))) (class_obj h) = heap w (class_obj h)
     \<and> (\<forall>a. a \<noteq> configData w \<longrightarrow> heap (snd (snd (update_global (h, w)))) a = heap w a)
     \<and> (\<forall>kvs. keyword_args (deref w (class_data h)) = Inr kvs \<longrightarrow>
          fst (update_global (h, w)) = Inr PyNone \<and>
          attrs (heap (snd (snd (update_global (h, w)))) (configData w)) =
            dict_update (attrs (heap w (configData w))) kvs)
     \<and> (\<forall>fp obj kwargs w0 h' w1.
          ConfigHandler_init fp (Some obj) kwargs w0 = (Inr h', w1) \<longrightarrow>
          cls h' = ConfigHandler \<and> class_obj h' = obj)"
proof (intro conjI allI impI)
  show "heap (snd (snd (update_global (h, w)))) (class_obj h) = heap w (class_obj h)"
    using other by (simp add: update_global_apply cfg split: sum.splits)
next
  fix a
  assume "a \<noteq> configData w"
  then show "heap (snd (snd (update_global (h, w)))) a = heap w a"
    by (simp add: update_global_apply cfg split: sum.splits)
next
  fix kvs
  assume k: "keyword_args (deref w (class_data h)) = Inr kvs"
  show "fst (update_global (h, w)) = Inr PyNone"
    by (simp add: update_global_apply cfg k)
  show "attrs (heap (snd (snd (update_global (h, w)))) (configData w)) =
            dict_update (attrs (heap w (configData w))) kvs"
    by (simp add: update_global_apply cfg k)
next
  fix fp obj kwargs w0 h' w1
  assume i: "ConfigHandler_init fp (Some obj) kwargs w0 = (Inr h', w1)"
  from ConfigHandler_init_result [OF i] show "cls h' = ConfigHandler" by simp
  from ConfigHandler_init_result [OF i] show "class_obj h' = obj" by simp
qed

lemma ConfigHandler_init_two:
  "ConfigHandler_init [''cfg.yml''] (Some 1) [] world_two =
     (Inr ((handler_at ConfigHandler False True False [''cfg.yml''])
             \<lparr>class_obj := 1, class_data := AttrDict 1\<rparr>), world_two)"
  by (simp add: ConfigHandler_init_def BaseHandler_init_def prog_simps Let_def dirname_def
      handler_at_def world_two_simps)

text \<open>
  A ConfigHandler constructed for object 1 in \<open>world_two\<close>: its update merges the
  attributes of object 1 into object 0 and leaves object 1 alone.
\<close>

theorem update_global_targets_module_singleton_witness:
  "ConfigHandler_init [''cfg.yml''] (Some 1) [] world_two =
     (Inr ((handler_at ConfigHandler False True False [''cfg.yml''])
             \<lparr>class_obj := 1, class_data := AttrDict 1\<rparr>), world_two)
   \<and> (1::nat) \<noteq> configData world_two
   \<and> attrs (heap world_two (configData world_two)) = [(''a'', PyInt 1), (''b'', PyInt 2)]
   \<and> attrs (heap (snd (snd (update_global
        ((handler_at ConfigHandler False True False [''cfg.yml''])
           \<lparr>class_obj := 1, class_data := AttrDict 1\<rparr>, world_two)))) (configData world_two)) =
       [(''a'', PyInt 1), (''b'', PyInt 3), (''c'', PyInt 4)]
   \<and> heap (snd (snd (update_global
        ((handler_at ConfigHandler False True False [''cfg.yml''])
           \<lparr>class_obj := 1, class_data := AttrDict 1\<rparr>, world_two)))) 1 = heap world_two 1"
proof -
  let ?h = "(handler_at ConfigHandler False True False [''cfg.yml''])
           \<lparr>class_obj := 1, class_data := AttrDict 1\<rparr>"
  have cfg: "cls ?h = ConfigHandler" by (simp add: handler_at_def)
  have other: "class_obj ?h \<noteq> configData world_two"
    by (simp add: handler_at_def world_two_simps)
  have k: "keyword_args (deref world_two (class_data ?h)) =
      Inr [(''b'', PyInt 3), (''c'', PyInt 4)]"
    by (simp add: handler_at_def world_two_simps attr_dict_def)
  note t = update_global_targets_module_singleton [OF cfg other]
  from t have a: "heap (snd (snd (update_global (?h, world_two)))) (class_obj ?h) =
      heap world_two (class_obj ?h)" by blast
  from t k have b: "attrs (heap (snd (snd (update_global (?h, world_two)))) (configData world_two)) =
      dict_update (attrs (heap world_two (configData world_two)))
        [(''b'', PyInt 3), (''c'', PyInt 4)]" by blast
  have c: "class_obj ?h = 1" by (simp add: handler_at_def)
  from ConfigHandler_init_two a b c show ?thesis
    by (simp add: world_two_simps dict_update_def)
qed

section \<open>The format a ConfigHandler is bound to\<close>

lemma save_file_written:
  assumes enc: "(if serialize_json h then ujson_dumps L else yaml_dump L)
      (deref w (class_data h)) = Inr payload"
    and fmt: "serialize_json h \<or> serialize_yaml h"
  shows "save_file L (h, w) =
     (case write_file (file_path h) (PyStr payload) w of
        (r, w2) \<Rightarrow>
          (Inr PyNone,
           (h, if r = Inr (PyBool True)
               then (case cls h of
                       BaseHandler \<Rightarrow>
                         w2\<lparr>calls := calls w2 @ [''on_saved_file''],
                            stdout := stdout w2 @
                              [''Unexpected error saving data: Subclasses must implement on_saved_file()'']\<rparr>
                     | ConfigHandler \<Rightarrow> w2\<lparr>calls := calls w2 @ [''on_saved_file'']\<rparr>)
               else w2)))"
proof -
  from enc fmt have e: "(serialize_json h \<and> ujson_dumps L (deref w (class_data h)) = Inr payload) \<or>
      (\<not> serialize_json h \<and> serialize_yaml h \<and>
       yaml_dump L (deref w (class_data h)) = Inr payload)"
    by (cases "serialize_json h") simp_all
  show ?thesis
  proof (cases "py_open (file_path h) ''w'' w")
    case (Pair r w1)
    show ?thesis
    proof (cases r)
      case (Inl x)
      with Pair show ?thesis
        by (simp add: save_file_encoded [OF e] write_file_str_eq)
    next
      case (Inr f)
      with Pair show ?thesis
        by (cases "cls h") (simp_all add: save_file_encoded [OF e] write_file_str_eq)
    qed
  qed
qed

lemma save_file_not_encoded:
  assumes enc: "(if serialize_json h then ujson_dumps L else yaml_dump L)
      (deref w (class_data h)) = Inl e"
    and fmt: "serialize_json h \<or> serialize_yaml h"
  shows "save_file L (h, w) =
     (Inr PyNone,
      (h, snd ((if serialize_json h then DataHandler_serialize_json L
                else DataHandler_serialize_yaml L) (deref w (class_data h)) w)))"
proof (cases "serialize_json h")
  case True
  with enc show ?thesis by (simp add: save_file_json_fail)
next
  case False
  with enc fmt show ?thesis by (simp add: save_file_yaml_fail)
qed

lemma config_load_decoded:
  assumes cfg: "cls h = ConfigHandler"
    and fmt: "serialize_json h \<or> serialize_yaml h"
    and rd: "read_file (file_path h) False w = (Inr (PyStr c), w)"
    and dec: "(if serialize_json h then ujson_loads L else yaml_safe_load L) (PyStr c) = Inr data"
    and nn: "data \<noteq> PyNone"
  shows "load_file L (h, w) =
     (case update_global (h\<lparr>class_data := Snapshot data\<rparr>,
                          w\<lparr>calls := calls w @ [''on_loaded_file'']\<rparr>) of
        (Inl e, (h2, w2)) \<Rightarrow>
          (Inr PyNone,
           (h2, w2\<lparr>stdout := stdout w2 @ [''Unexpected error loading data: '' @ exn_str e]\<rparr>))
      | (Inr r, s2) \<Rightarrow> (Inr PyNone, s2))"
proof (cases "serialize_json h")
  case True
  with dec nn cfg show ?thesis
    by (simp add: load_file_after_read [OF rd] deserialize_json_eq on_loaded_file_apply
        split: prod.splits sum.splits)
next
  case False
  with dec nn cfg fmt show ?thesis
    by (simp add: load_file_after_read [OF rd] deserialize_yaml_eq on_loaded_file_apply
        split: prod.splits sum.splits)
qed

lemma load_not_decoded:
  assumes fmt: "serialize_json h \<or> serialize_yaml h"
    and rd: "read_file (file_path h) False w = (Inr (PyStr c), w)"
    and dec: "(if serialize_json h then ujson_loads L else yaml_safe_load L) (PyStr c) = Inl e"
  shows "load_file L (h, w) =
     (Inr PyNone,
      (h, snd ((if serialize_json h then DataHandler_deserialize_json L
                else DataHandler_deserialize_yaml L) (PyStr c) w)))"
proof (cases "serialize_json h")
  case True
  with dec show ?thesis
    by (simp add: load_file_after_read [OF rd] deserialize_json_eq)
next
  case False
  with dec fmt show ?thesis
    by (simp add: load_file_after_read [OF rd] deserialize_yaml_eq)
qed


text \<open>
  C6, as the code has it. Passing \<^verbatim>\<open>serialize_yaml\<close> to the constructor of a
  ConfigHandler is a TypeError of the call. A ConfigHandler that was constructed has the
  YAML flag set, and its JSON and TOML flags are what the caller passed. \<^verbatim>\<open>save_file\<close>
  and \<^verbatim>\<open>load_file\<close> test the JSON flag first, so the codec they use is JSON when the
  caller set that flag and YAML otherwise, never TOML: the text handed to \<^verbatim>\<open>write_file\<close>
  is what that encoder returned, and \<^verbatim>\<open>class_data\<close> becomes what that decoder returned
  before \<^verbatim>\<open>update_global\<close> runs; when that codec raises, it is its wrapper that prints.
\<close>

theorem ConfigHandler_format_binding:
  "(''serialize_yaml'' \<in> set (map fst kwargs) \<longrightarrow>
      ConfigHandler_init fp cobj kwargs w0 =
        (Inl (PyExn TypeError ''got multiple values for keyword argument 'serialize_yaml' ''), w0))
   \<and> (ConfigHandler_init fp cobj kwargs w0 = (Inr h, w1) \<longrightarrow>
        cls h = ConfigHandler \<and> serialize_yaml h
        \<and> serialize_json h = (map_of kwargs ''serialize_json'' = Some True)
        \<and> serialize_toml h = (map_of kwargs ''serialize_toml'' = Some True)
        \<and> (\<forall>payload.
              (if serialize_json h then ujson_dumps L else yaml_dump L)
                (deref w (class_data h)) = Inr payload \<longrightarrow>
              save_file L (h, w) =
                (case write_file (file_path h) (PyStr payload) w of
                   (r, w2) \<Rightarrow>
                     (Inr PyNone,
                      (h, if r = Inr (PyBool True)
                          then w2\<lparr>calls := calls w2 @ [''on_saved_file'']\<rparr> else w2))))
        \<and> (\<forall>e.
              (if serialize_json h then ujson_dumps L else yaml_dump L)
                (deref w (class_data h)) = Inl e \<longrightarrow>
              save_file L (h, w) =
                (Inr PyNone,
                 (h, snd ((if serialize_json h then DataHandler_serialize_json L
                           else DataHandler_serialize_yaml L) (deref w (class_data h)) w))))
        \<and> (\<forall>c data.
              read_file (file_path h) False w = (Inr (PyStr c), w) \<and>
              (if serialize_json h then ujson_loads L else yaml_safe_load L) (PyStr c) = Inr data \<and>
              data \<noteq> PyNone \<longrightarrow>
              load_file L (h, w) =
                (case update_global (h\<lparr>class_data := Snapshot data\<rparr>,
                                     w\<lparr>calls := calls w @ [''on_loaded_file'']\<rparr>) of
                   (Inl e, (h2, w2)) \<Rightarrow>
                     (Inr PyNone,
                      (h2, w2\<lparr>stdout := stdout w2 @
                         [''Unexpected error loading data: '' @ exn_str e]\<rparr>))
                 | (Inr r, s2) \<Rightarrow> (Inr PyNone, s2)))
        \<and> (\<forall>c e.
              read_file (file_path h) False w = (Inr (PyStr c), w) \<and>
              (if serialize_json h then ujson_loads L else yaml_safe_load L) (PyStr c) = Inl e \<longrightarrow>
              load_file L (h, w) =
                (Inr PyNone,
                 (h, snd ((if serialize_json h then DataHandler_deserialize_json L
                           else DataHandler_deserialize_yaml L) (PyStr c) w)))))"
proof (intro conjI impI)
  assume "''serialize_yaml'' \<in> set (map fst kwargs)"
  then show "ConfigHandler_init fp cobj kwargs w0 =
        (Inl (PyExn TypeError ''got multiple values for keyword argument 'serialize_yaml' ''), w0)"
    by (simp add: ConfigHandler_init_def Let_def)
next
  assume init: "ConfigHandler_init fp cobj kwargs w0 = (Inr h, w1)"
  note r = ConfigHandler_init_result [OF init]
  from r have cfg: "cls h = ConfigHandler" and y: "serialize_yaml h" by simp_all
  then have fmt: "serialize_json h \<or> serialize_yaml h" by simp
  show "cls h = ConfigHandler" by (rule cfg)
  show "serialize_yaml h" by (rule y)
  show "serialize_json h = (map_of kwargs ''serialize_json'' = Some True)" using r by simp
  show "serialize_toml h = (map_of kwargs ''serialize_toml'' = Some True)" using r by simp
  show "\<forall>payload.
              (if serialize_json h then ujson_dumps L else yaml_dump L)
                (deref w (class_data h)) = Inr payload \<longrightarrow>
              save_file L (h, w) =
                (case write_file (file_path h) (PyStr payload) w of
                   (r, w2) \<Rightarrow>
                     (Inr PyNone,
                      (h, if r = Inr (PyBool True)
                          then w2\<lparr>calls := calls w2 @ [''on_saved_file'']\<rparr> else w2)))"
    by (intro allI impI) (simp add: save_file_written [OF _ fmt] cfg split: prod.splits)
  show "\<forall>e.
              (if serialize_json h then ujson_dumps L else yaml_dump L)
                (deref w (class_data h)) = Inl e \<longrightarrow>
              save_file L (h, w) =
                (Inr PyNone,
                 (h, snd ((if serialize_json h then DataHandler_serialize_json L
                           else DataHandler_serialize_yaml L) (deref w (class_data h)) w)))"
    by (intro allI impI) (rule save_file_not_encoded [OF _ fmt])
  show "\<forall>c data.
              read_file (file_path h) False w = (Inr (PyStr c), w) \<and>
              (if serialize_json h then ujson_loads L else yaml_safe_load L) (PyStr c) = Inr data \<and>
              data \<noteq> PyNone \<longrightarrow>
              load_file L (h, w) =
                (case update_global (h\<lparr>class_data := Snapshot data\<rparr>,
                                     w\<lparr>calls := calls w @ [''on_loaded_file'']\<rparr>) of
                   (Inl e, (h2, w2)) \<Rightarrow>
                     (Inr PyNone,
                      (h2, w2\<lparr>stdout := stdout w2 @
                         [''Unexpected error loading data: '' @ exn_str e]\<rparr>))
                 | (Inr r, s2) \<Rightarrow> (Inr PyNone, s2))"
    by (intro allI impI, elim conjE, rule config_load_decoded [OF cfg fmt])
  show "\<forall>c e.
              read_file (file_path h) False w = (Inr (PyStr c), w) \<and>
              (if serialize_json h then ujson_loads L else yaml_safe_load L) (PyStr c) = Inl e \<longrightarrow>
              load_file L (h, w) =
                (Inr PyNone,
                 (h, snd ((if serialize_json h then DataHandler_deserialize_json L
                           else DataHandler_deserialize_yaml L) (PyStr c) w)))"
    by (intro allI impI, elim conjE, rule load_not_decoded [OF fmt])
qed


lemma sample_codecs_simps:
  "ujson_dumps sample_codecs (PyDict []) = Inr ''{}''"
  "yaml_dump sample_codecs (PyDict []) = Inr (''{}'' @ [CHR 0x0A])"
  "ujson_loads sample_codecs (PyStr ''a: 1'') = Inl (PyExn ValueError ''Expected object or value'')"
  "yaml_safe_load sample_codecs (PyStr ''a: 1'') = Inr (PyDict [(PyStr ''a'', PyInt 1)])"
  by (simp_all add: sample_codecs_def)

lemma deref_empty_object:
  "deref world0 (AttrDict 0) = PyDict []"
  "deref world_cfg (AttrDict 0) = PyDict []"
  "attr_dict (heap world0 0) = PyDict []"
  "attr_dict (heap world_cfg 0) = PyDict []"
  by (simp_all add: attr_dict_def world0_simps world_cfg_simps)

lemma ConfigHandler_init_cfg:
  "ConfigHandler_init [''cfg.yml''] None [] world0 =
     (Inr (handler_at ConfigHandler False True False [''cfg.yml'']), world0)"
  "ConfigHandler_init [''cfg.yml''] None [(''serialize_json'', True)] world0 =
     (Inr (handler_at ConfigHandler True True False [''cfg.yml'']), world0)"
  by (simp_all add: ConfigHandler_init_def BaseHandler_init_def prog_simps Let_def dirname_def
      handler_at_def world0_simps)

lemma write_file_cfg:
  "write_file [''cfg.yml''] (PyStr s) world0 =
     (Inr (PyBool True), world0\<lparr>fsys := (fsys world0)\<lparr>files := [[''cfg.yml''] \<mapsto> s]\<rparr>\<rparr>)"
  by (simp add: write_file_str_eq py_open_cfg world0_simps)

lemma save_file_sample:
  "save_file sample_codecs (handler_at ConfigHandler j True False [''cfg.yml''], world0) =
     (Inr PyNone,
      (handler_at ConfigHandler j True False [''cfg.yml''],
       world0\<lparr>fsys := (fsys world0)
                 \<lparr>files := [[''cfg.yml''] \<mapsto> (if j then ''{}'' else ''{}'' @ [CHR 0x0A])]\<rparr>,
         calls := [''on_saved_file'']\<rparr>))"
proof -
  let ?h = "handler_at ConfigHandler j True False [''cfg.yml'']"
  have enc: "(if serialize_json ?h then ujson_dumps sample_codecs else yaml_dump sample_codecs)
      (deref world0 (class_data ?h)) = Inr (if j then ''{}'' else ''{}'' @ [CHR 0x0A])"
    by (simp add: deref_empty_object sample_codecs_simps handler_at_simps)
  have fmt: "serialize_json ?h \<or> serialize_yaml ?h" by (simp add: handler_at_simps)
  show ?thesis
    by (simp add: save_file_written [OF enc fmt] handler_at_simps write_file_cfg world0_simps)
qed

lemma load_file_sample_json:
  "load_file sample_codecs (handler_at ConfigHandler True True False [''cfg.yml''], world_cfg) =
     (Inr PyNone,
      (handler_at ConfigHandler True True False [''cfg.yml''],
       world_cfg\<lparr>stdout :=
         [''Failed to deserialize data from JSON. Ensure that the data is a valid JSON string. Error: Expected object or value'']\<rparr>))"
proof -
  let ?h = "handler_at ConfigHandler True True False [''cfg.yml'']"
  have fmt: "serialize_json ?h \<or> serialize_yaml ?h" by (simp add: handler_at_simps)
  have rd: "read_file (file_path ?h) False world_cfg = (Inr (PyStr ''a: 1''), world_cfg)"
    by (simp add: handler_at_simps read_file_cfg)
  have dec: "(if serialize_json ?h then ujson_loads sample_codecs
              else yaml_safe_load sample_codecs) (PyStr ''a: 1'') =
      Inl (PyExn ValueError ''Expected object or value'')"
    by (simp add: handler_at_simps sample_codecs_simps)
  show ?thesis
    by (simp add: load_not_decoded [OF fmt rd dec] handler_at_simps deserialize_json_eq
        sample_codecs_simps isinstance_exn_def issubclass_def world_cfg_simps)
qed

text \<open>
  C6 as the specification states it fails at
  \<^verbatim>\<open>ConfigHandler("cfg.yml", serialize_json=True)\<close>, which is constructed with both flags
  set. Its save of the empty record writes the JSON text \<^verbatim>\<open>{}\<close>, not the YAML text.
  Its load of a file holding \<^verbatim>\<open>a: 1\<close>, which the YAML decoder reads as a mapping,
  goes to the JSON decoder, which rejects it: the handler stays as it was and no hook is
  entered.
\<close>

theorem ConfigHandler_with_json_flag_uses_json:
  "ConfigHandler_init [''cfg.yml''] None [(''serialize_json'', True)] world0 =
     (Inr (handler_at ConfigHandler True True False [''cfg.yml'']), world0)
   \<and> yaml_dump sample_codecs
        (deref world0 (class_data (handler_at ConfigHandler True True False [''cfg.yml''])))
      = Inr (''{}'' @ [CHR 0x0A])
   \<and> files (fsys (snd (snd (save_file sample_codecs
        (handler_at ConfigHandler True True False [''cfg.yml''], world0))))) [''cfg.yml'']
      = Some ''{}''
   \<and> read_file [''cfg.yml''] False world_cfg = (Inr (PyStr ''a: 1''), world_cfg)
   \<and> yaml_safe_load sample_codecs (PyStr ''a: 1'') = Inr (PyDict [(PyStr ''a'', PyInt 1)])
   \<and> fst (snd (load_file sample_codecs
        (handler_at ConfigHandler True True False [''cfg.yml''], world_cfg))) =
       handler_at ConfigHandler True True False [''cfg.yml'']
   \<and> calls (snd (snd (load_file sample_codecs
        (handler_at ConfigHandler True True False [''cfg.yml''], world_cfg)))) = []"
  by (simp add: ConfigHandler_init_cfg handler_at_simps deref_empty_object sample_codecs_simps
      save_file_sample read_file_cfg load_file_sample_json world_cfg_simps)


text \<open>
  The constructor called with \<^verbatim>\<open>serialize_yaml\<close>, with no flag and with
  \<^verbatim>\<open>serialize_json=True\<close>, and the saves and loads of the two handlers it returns.
\<close>

theorem ConfigHandler_format_binding_witness:
  "ConfigHandler_init [''cfg.yml''] None [(''serialize_yaml'', False)] world0 =
     (Inl (PyExn TypeError ''got multiple values for keyword argument 'serialize_yaml' ''), world0)
   \<and> ConfigHandler_init [''cfg.yml''] None [] world0 =
     (Inr (handler_at ConfigHandler False True False [''cfg.yml'']), world0)
   \<and> save_file sample_codecs (handler_at ConfigHandler False True False [''cfg.yml''], world0) =
       (Inr PyNone,
        (handler_at ConfigHandler False True False [''cfg.yml''],
         world0\<lparr>fsys := (fsys world0)\<lparr>files := [[''cfg.yml''] \<mapsto> ''{}'' @ [CHR 0x0A]]\<rparr>,
           calls := [''on_saved_file'']\<rparr>))
   \<and> fst (snd (load_file sample_codecs
        (handler_at ConfigHandler False True False [''cfg.yml''], world_cfg))) =
       (handler_at ConfigHandler False True False [''cfg.yml''])
         \<lparr>class_data := Snapshot (PyDict [(PyStr ''a'', PyInt 1)])\<rparr>
   \<and> attrs (heap (snd (snd (load_file sample_codecs
        (handler_at ConfigHandler False True False [''cfg.yml''], world_cfg)))) 0) =
       [(''a'', PyInt 1)]
   \<and> ConfigHandler_init [''cfg.yml''] None [(''serialize_json'', True)] world0 =
     (Inr (handler_at ConfigHandler True True False [''cfg.yml'']), world0)
   \<and> save_file sample_codecs (handler_at ConfigHandler True True False [''cfg.yml''], world0) =
       (Inr PyNone,
        (handler_at ConfigHandler True True False [''cfg.yml''],
         world0\<lparr>fsys := (fsys world0)\<lparr>files := [[''cfg.yml''] \<mapsto> ''{}'']\<rparr>,
           calls := [''on_saved_file'']\<rparr>))
   \<and> fst (snd (load_file sample_codecs
        (handler_at ConfigHandler True True False [''cfg.yml''], world_cfg))) =
       handler_at ConfigHandler True True False [''cfg.yml'']"
proof -
  let ?y = "handler_at ConfigHandler False True False [''cfg.yml'']"
  let ?j = "handler_at ConfigHandler True True False [''cfg.yml'']"
  have a: "ConfigHandler_init [''cfg.yml''] None [(''serialize_yaml'', False)] world0 =
     (Inl (PyExn TypeError ''got multiple values for keyword argument 'serialize_yaml' ''), world0)"
    using ConfigHandler_format_binding
      [where kwargs = "[(''serialize_yaml'', False)]" and fp = "[''cfg.yml'']" and cobj = None
        and ?w0.0 = world0]
    by simp
  note ty = ConfigHandler_format_binding
      [where kwargs = "[]" and fp = "[''cfg.yml'']" and cobj = None and ?w0.0 = world0
        and h = ?y and ?w1.0 = world0 and L = sample_codecs]
  note tj = ConfigHandler_format_binding
      [where kwargs = "[(''serialize_json'', True)]" and fp = "[''cfg.yml'']" and cobj = None
        and ?w0.0 = world0 and h = ?j and ?w1.0 = world0 and L = sample_codecs]
  have b: "save_file sample_codecs (?y, world0) =
       (Inr PyNone,
        (?y, world0\<lparr>fsys := (fsys world0)\<lparr>files := [[''cfg.yml''] \<mapsto> ''{}'' @ [CHR 0x0A]]\<rparr>,
           calls := [''on_saved_file'']\<rparr>))"
    using ty [where w = world0]
    by (simp add: ConfigHandler_init_cfg handler_at_simps attr_dict_def sample_codecs_simps
        write_file_cfg world0_simps)
  have c: "save_file sample_codecs (?j, world0) =
       (Inr PyNone,
        (?j, world0\<lparr>fsys := (fsys world0)\<lparr>files := [[''cfg.yml''] \<mapsto> ''{}'']\<rparr>,
           calls := [''on_saved_file'']\<rparr>))"
    using tj [where w = world0]
    by (simp add: ConfigHandler_init_cfg handler_at_simps attr_dict_def sample_codecs_simps
        write_file_cfg world0_simps)
  have d: "load_file sample_codecs (?y, world_cfg) =
       (case update_global (?y\<lparr>class_data := Snapshot (PyDict [(PyStr ''a'', PyInt 1)])\<rparr>,
                            world_cfg\<lparr>calls := calls world_cfg @ [''on_loaded_file'']\<rparr>) of
          (Inl e, (h2, w2)) \<Rightarrow>
            (Inr PyNone,
             (h2, w2\<lparr>stdout := stdout w2 @ [''Unexpected error loading data: '' @ exn_str e]\<rparr>))
        | (Inr r, s2) \<Rightarrow> (Inr PyNone, s2))"
    using ty [where w = world_cfg]
    by (simp add: ConfigHandler_init_cfg handler_at_simps sample_codecs_simps read_file_cfg)
  have e: "load_file sample_codecs (?j, world_cfg) =
       (Inr PyNone,
        (?j, snd (DataHandler_deserialize_json sample_codecs (PyStr ''a: 1'') world_cfg)))"
    using tj [where w = world_cfg]
    by (simp add: ConfigHandler_init_cfg handler_at_simps sample_codecs_simps read_file_cfg)
  have d1: "fst (snd (load_file sample_codecs (?y, world_cfg))) =
      ?y\<lparr>class_data := Snapshot (PyDict [(PyStr ''a'', PyInt 1)])\<rparr>"
    by (subst d) (simp add: update_global_apply handler_at_def)
  have d2: "attrs (heap (snd (snd (load_file sample_codecs (?y, world_cfg)))) 0) =
      [(''a'', PyInt 1)]"
    by (subst d) (simp add: update_global_apply handler_at_def world_cfg_simps dict_update_def)
  from a b c d1 d2 e show ?thesis
    by (simp add: ConfigHandler_init_cfg)
qed

end
